theory Spec2Isabelle
  imports Main "HOL-Library.Sublist" "HOL-Library.AList"
begin

section \<open>JavaScript values\<close>

text \<open>
  The application keeps its data as plain JavaScript objects that travel through
  \<^verbatim>\<open>JSON.stringify\<close> and \<^verbatim>\<open>JSON.parse\<close>. A value is therefore a JSON value; the
  JavaScript value \<^verbatim>\<open>undefined\<close> (a missing property) is \<open>None\<close> of \<open>json option\<close>.
  An object is the list of its own properties in insertion order. Strings are lists of
  code units below 256, numbers are integers.
\<close>

datatype json =
    JNull
  | JBool bool
  | JNum int
  | JStr string
  | JArr "json list"
  | JObj "(string \<times> json) list"

type_synonym obj = "(string \<times> json) list"
type_synonym jsval = "json option"

text \<open>
  A thrown exception is a value: \<open>Error msg\<close> is \<^verbatim>\<open>new Error(msg)\<close>, \<open>TypeError what\<close> is the
  TypeError the engine raises (its text is engine specific; \<open>what\<close> names the operation).
\<close>

datatype error = Error string | TypeError string

definition bindE :: "error + 'a \<Rightarrow> ('a \<Rightarrow> error + 'b) \<Rightarrow> error + 'b" where
  "bindE m f = (case m of Inl e \<Rightarrow> Inl e | Inr x \<Rightarrow> f x)"

text \<open>\<^verbatim>\<open>!!v\<close>: the falsy values are undefined, null, false, 0 and the empty string.\<close>

fun truthy :: "jsval \<Rightarrow> bool" where
  "truthy None = False"
| "truthy (Some JNull) = False"
| "truthy (Some (JBool b)) = b"
| "truthy (Some (JNum n)) = (n \<noteq> 0)"
| "truthy (Some (JStr s)) = (s \<noteq> [])"
| "truthy (Some (JArr xs)) = True"
| "truthy (Some (JObj kvs)) = True"

text \<open>
  \<^verbatim>\<open>v.k\<close> for the property names the sources read (\<^verbatim>\<open>message\<close>, \<^verbatim>\<open>name\<close>, \<^verbatim>\<open>title\<close>,
  \<^verbatim>\<open>notes\<close>, ...; none of them is an index or a built-in member of strings, arrays,
  numbers or booleans): reading a property of undefined or null throws, an object
  answers with its own property, every other value with undefined.
\<close>

fun get_prop :: "jsval \<Rightarrow> string \<Rightarrow> error + jsval" where
  "get_prop None k = Inl (TypeError (''Cannot read properties of undefined: '' @ k))"
| "get_prop (Some JNull) k = Inl (TypeError (''Cannot read properties of null: '' @ k))"
| "get_prop (Some (JObj kvs)) k = Inr (map_of kvs k)"
| "get_prop (Some v) k = Inr None"

text \<open>
  \<^verbatim>\<open>String.prototype.toLowerCase\<close> on code units below 256: A-Z and the Latin-1 capitals
  (0xC0-0xDE without the multiplication sign 0xD7) move up by 32, which sets bit 5.
\<close>

definition lowerUnit :: "char \<Rightarrow> char" where
  "lowerUnit c = (let n = (of_char c :: nat) in
     if (65 \<le> n \<and> n \<le> 90) \<or> (192 \<le> n \<and> n \<le> 222 \<and> n \<noteq> 215)
     then (case c of Char b0 b1 b2 b3 b4 b5 b6 b7 \<Rightarrow> Char b0 b1 b2 b3 b4 True b6 b7)
     else c)"

definition toLowerCase :: "string \<Rightarrow> string" where
  "toLowerCase s = map lowerUnit s"

text \<open>\<^verbatim>\<open>s.includes(k)\<close>: \<open>k\<close> occurs in \<open>s\<close> as a contiguous run.\<close>

primrec js_includes :: "string \<Rightarrow> string \<Rightarrow> bool" where
  "js_includes [] k = (k = [])"
| "js_includes (c # cs) k = (prefix k (c # cs) \<or> js_includes cs k)"

text \<open>\<^verbatim>\<open>a === b\<close> for two values that were built separately (a parsed note against caller
  data, a category record against a note field): primitives compare by value, and two
  arrays or objects are never the same reference.\<close>

fun strict_eq :: "jsval \<Rightarrow> jsval \<Rightarrow> bool" where
  "strict_eq None None = True"
| "strict_eq (Some JNull) (Some JNull) = True"
| "strict_eq (Some (JBool a)) (Some (JBool b)) = (a = b)"
| "strict_eq (Some (JNum a)) (Some (JNum b)) = (a = b)"
| "strict_eq (Some (JStr a)) (Some (JStr b)) = (a = b)"
| "strict_eq a b = False"

text \<open>Decimal digits of a natural number, as \<^verbatim>\<open>String(n)\<close> prints it.\<close>

definition digit :: "nat \<Rightarrow> char" where
  "digit d = ''0123456789'' ! d"

function decimal :: "nat \<Rightarrow> string" where
  "decimal n = (if n < 10 then [digit n] else decimal (n div 10) @ [digit (n mod 10)])"
  by pat_completeness auto
termination
  by (relation "measure (\<lambda>n. n)") auto

declare decimal.simps [simp del]

text \<open>\<^verbatim>\<open>parts.join(sep)\<close> on strings.\<close>

fun js_join :: "string \<Rightarrow> string list \<Rightarrow> string" where
  "js_join sep [] = []"
| "js_join sep [x] = x"
| "js_join sep (x # y # ys) = x @ sep @ js_join sep (y # ys)"

text \<open>
  \<^verbatim>\<open>String(v)\<close>, which a template literal applies to an interpolated value: an array prints
  its elements joined by commas, with null printed as the empty string; a plain object
  prints as \<^verbatim>\<open>[object Object]\<close>. A number prints in plain decimal, as \<^verbatim>\<open>String\<close> does for the
  integers below \<^verbatim>\<open>1e21\<close> in magnitude; from there on JavaScript prints an exponent, which
  is left out here.
\<close>

fun js_toString :: "json \<Rightarrow> string" where
  "js_toString JNull = ''null''"
| "js_toString (JBool b) = (if b then ''true'' else ''false'')"
| "js_toString (JNum n) = (if n < 0 then ''-'' @ decimal (nat (- n)) else decimal (nat n))"
| "js_toString (JStr s) = s"
| "js_toString (JArr xs) =
     js_join '','' (map (\<lambda>x. if x = JNull then [] else js_toString x) xs)"
| "js_toString (JObj kvs) = ''[object Object]''"

definition interpolate :: "jsval \<Rightarrow> string" where
  "interpolate v = (case v of None \<Rightarrow> ''undefined'' | Some x \<Rightarrow> js_toString x)"

text \<open>
  \<^verbatim>\<open>String.prototype.trim\<close>: the white space and line terminators among the code units
  below 256 are TAB, LF, VT, FF, CR, SPACE and NBSP.
\<close>

definition isWhiteSpace :: "char \<Rightarrow> bool" where
  "isWhiteSpace c = (let n = (of_char c :: nat) in
     n = 9 \<or> n = 10 \<or> n = 11 \<or> n = 12 \<or> n = 13 \<or> n = 32 \<or> n = 160)"

definition js_trim :: "string \<Rightarrow> string" where
  "js_trim s = rev (dropWhile isWhiteSpace (rev (dropWhile isWhiteSpace s)))"

text \<open>
  The own enumerable properties that \<^verbatim>\<open>{...v}\<close> copies: those of an object, the indexed
  elements of an array, the indexed characters of a string, and nothing for the other
  primitives, null and undefined.
\<close>

fun spread :: "jsval \<Rightarrow> obj" where
  "spread (Some (JObj kvs)) = kvs"
| "spread (Some (JArr xs)) = zip (map decimal [0..<length xs]) xs"
| "spread (Some (JStr s)) = zip (map decimal [0..<length s]) (map (\<lambda>c. JStr [c]) s)"
| "spread v = []"

text \<open>
  \<^verbatim>\<open>o[k] = v\<close> and the later entries of an object literal, for a key that is not an index:
  an existing property keeps its place and takes the new value, a new one goes last.
\<close>

definition set_prop :: "string \<Rightarrow> json \<Rightarrow> obj \<Rightarrow> obj" where
  "set_prop k v ob = AList.update k v ob"

text \<open>\<^verbatim>\<open>xs.findIndex(p)\<close>, with \<open>None\<close> for -1.\<close>

fun findIndex :: "('a \<Rightarrow> bool) \<Rightarrow> 'a list \<Rightarrow> nat option" where
  "findIndex p [] = None"
| "findIndex p (x # xs) =
     (if p x then Some 0 else (case findIndex p xs of None \<Rightarrow> None | Some i \<Rightarrow> Some (Suc i)))"

text \<open>\<^verbatim>\<open>xs.splice(i, 1)\<close> leaves the array without its element at position \<open>i\<close>.\<close>

definition splice1 :: "nat \<Rightarrow> 'a list \<Rightarrow> 'a list" where
  "splice1 i xs = take i xs @ drop (Suc i) xs"

section \<open>Environment and application state\<close>

text \<open>
  What the browser and the user supply is an oracle. Clock readings, random draws and
  dialog answers are indexed by how many were consumed before; the state counts them.
  \<open>dateParse\<close> is \<^verbatim>\<open>new Date(v)\<close> (\<open>None\<close> for an invalid date), \<open>numericGreater s n\<close> is the
  engine's \<^verbatim>\<open>Number(s) > n\<close> for a string, \<open>loadCategories\<close>, \<open>settingsVersion\<close> and
  \<open>getNotesStatistics\<close> are what the data manager answers, and \<open>exportToTXT\<close> is the
  plain-text layout of the data manager, which this development does not look into.
  A serialised JSON document is identified with the value it denotes, so local storage
  holds values: the item \<^verbatim>\<open>notes\<close> is an array of objects and \<^verbatim>\<open>note_backups\<close> an object,
  as every writer of the application stores them. Writes to local storage succeed.
  The steps of an \<^verbatim>\<open>async\<close> function run one after the other; nothing else touches the
  state while a workflow waits for the user.
\<close>

record env =
  dateNow :: "nat \<Rightarrow> nat"
  mathRandom :: "nat \<Rightarrow> string"
  toISOString :: "nat \<Rightarrow> string"
  toDateString :: "int \<Rightarrow> string"
  dateParse :: "jsval \<Rightarrow> int option"
  confirmAnswer :: "nat \<Rightarrow> bool"
  loadCategories :: "obj list"
  settingsVersion :: jsval
  getNotesStatistics :: json
  numericGreater :: "string \<Rightarrow> nat \<Rightarrow> bool"
  exportToTXT :: "obj list \<Rightarrow> error + string"

record workflow =
  wf_type :: string
  startTime :: nat
  steps :: "(string \<times> json) list"
  wf_data :: json
  endTime :: "nat option"
  duration :: "int option"
  status :: "string option"
  wf_error :: "error option"

record dialog =
  dlg_title :: string
  dlg_message :: string
  confirmText :: string
  cancelText :: string

record creationRules =
  requiresTemplate :: bool
  requiresCategory :: bool
  allowEmptyContent :: bool
  maxDailyNotes :: nat
  autoSaveEnabled :: bool

record noteRules =
  title_required :: bool
  title_maxLength :: nat
  content_required :: bool
  content_maxLength :: nat
  category_required :: bool
  category_validCategories :: bool
  tags_maxCount :: nat
  tags_maxLength :: nat
  priority_enum :: "string list"

record state =
  ls_notes :: "obj list"
  ls_note_backups :: obj
  currentWorkflow :: "workflow option"
  workflowHistory :: "workflow list"
  note_creation :: creationRules
  note_validation :: noteRules
  clockReads :: nat
  randomDraws :: nat
  dialogs :: "dialog list"
  toasts :: "(string \<times> string) list"
  events :: "string list"

text \<open>The rule tables that \<^verbatim>\<open>initializeBusinessRules\<close> installs.\<close>

definition initial_note_creation :: creationRules where
  "initial_note_creation =
     \<lparr>requiresTemplate = False, requiresCategory = True, allowEmptyContent = False,
      maxDailyNotes = 100, autoSaveEnabled = True\<rparr>"

definition initial_note_validation :: noteRules where
  "initial_note_validation =
     \<lparr>title_required = True, title_maxLength = 200,
      content_required = True, content_maxLength = 50000,
      category_required = True, category_validCategories = True,
      tags_maxCount = 10, tags_maxLength = 30,
      priority_enum = [''low'', ''medium'', ''high'']\<rparr>"

definition initializeBusinessRules :: "state \<Rightarrow> state" where
  "initializeBusinessRules st =
     st\<lparr>note_creation := initial_note_creation, note_validation := initial_note_validation\<rparr>"

text \<open>
  A step of a workflow runs on the state and either returns or throws; the state it
  leaves is kept in both cases.
\<close>

type_synonym 'a action = "state \<Rightarrow> (error + 'a) \<times> state"

definition ret :: "'a \<Rightarrow> 'a action" where
  "ret x st = (Inr x, st)"

definition throw :: "error \<Rightarrow> 'a action" where
  "throw e st = (Inl e, st)"

definition bindS :: "'a action \<Rightarrow> ('a \<Rightarrow> 'b action) \<Rightarrow> 'b action" where
  "bindS m f st = (case m st of (Inl e, st') \<Rightarrow> (Inl e, st') | (Inr x, st') \<Rightarrow> f x st')"

definition tryCatch :: "'a action \<Rightarrow> (error \<Rightarrow> 'a action) \<Rightarrow> 'a action" where
  "tryCatch m h st = (case m st of (Inl e, st') \<Rightarrow> h e st' | (Inr x, st') \<Rightarrow> (Inr x, st'))"

definition modify :: "(state \<Rightarrow> state) \<Rightarrow> unit action" where
  "modify f st = (Inr (), f st)"

text \<open>\<^verbatim>\<open>Date.now()\<close> and \<^verbatim>\<open>new Date()\<close> read the clock once each.\<close>

definition readClock :: "env \<Rightarrow> nat action" where
  "readClock e st = (Inr (dateNow e (clockReads st)), st\<lparr>clockReads := Suc (clockReads st)\<rparr>)"

definition newISOString :: "env \<Rightarrow> string action" where
  "newISOString e = bindS (readClock e) (\<lambda>t. ret (toISOString e t))"

text \<open>\<^verbatim>\<open>generateNoteId\<close>: the clock reading and nine base-36 digits of a random draw.\<close>

definition generateNoteId :: "env \<Rightarrow> string action" where
  "generateNoteId e =
     bindS (readClock e) (\<lambda>t st.
       (Inr (''note_'' @ decimal t @ ''_'' @ mathRandom e (randomDraws st)),
        st\<lparr>randomDraws := Suc (randomDraws st)\<rparr>))"

text \<open>\<^verbatim>\<open>modalSystem.confirm\<close>: the dialog is shown and the user's answer comes back.\<close>

definition confirm :: "env \<Rightarrow> dialog \<Rightarrow> bool action" where
  "confirm e d st = (Inr (confirmAnswer e (length (dialogs st))), st\<lparr>dialogs := dialogs st @ [d]\<rparr>)"

definition toast :: "string \<Rightarrow> string \<Rightarrow> unit action" where
  "toast kind msg = modify (\<lambda>st. st\<lparr>toasts := toasts st @ [(kind, msg)]\<rparr>)"

text \<open>\<^verbatim>\<open>updateDashboardStats\<close> dispatches the window event \<^verbatim>\<open>statsUpdated\<close>.\<close>

definition updateDashboardStats :: "unit action" where
  "updateDashboardStats = modify (\<lambda>st. st\<lparr>events := events st @ [''statsUpdated'']\<rparr>)"

section \<open>Workflow records (businessLogic.js)\<close>

definition beginWorkflow :: "env \<Rightarrow> string \<Rightarrow> json \<Rightarrow> unit action" where
  "beginWorkflow e ty dat =
     bindS (readClock e) (\<lambda>t. modify (\<lambda>st. st\<lparr>currentWorkflow :=
       Some \<lparr>wf_type = ty, startTime = t, steps = [], wf_data = dat, endTime = None,
             duration = None, status = None, wf_error = None\<rparr>\<rparr>))"

text \<open>\<^verbatim>\<open>this.currentWorkflow.steps.push({step, result})\<close>; without a current workflow the
  property read throws.\<close>

definition pushStep :: "string \<Rightarrow> json \<Rightarrow> unit action" where
  "pushStep name result st =
     (case currentWorkflow st of
        None \<Rightarrow> (Inl (TypeError ''Cannot read properties of null: steps''), st)
      | Some w \<Rightarrow> (Inr (), st\<lparr>currentWorkflow := Some (w\<lparr>steps := steps w @ [(name, result)]\<rparr>)\<rparr>))"

text \<open>
  \<^verbatim>\<open>completeWorkflow(status, error)\<close>: stamps the current workflow, records the error when
  one is passed, appends a copy to the history, and keeps the last 50 entries.
\<close>

definition completeWorkflow :: "env \<Rightarrow> string \<Rightarrow> error option \<Rightarrow> unit action" where
  "completeWorkflow e stat err st =
     (case currentWorkflow st of
        None \<Rightarrow> (Inr (), st)
      | Some w \<Rightarrow>
          (let t = dateNow e (clockReads st);
               w' = w\<lparr>endTime := Some t, duration := Some (int t - int (startTime w)),
                      status := Some stat\<rparr>;
               w'' = (case err of None \<Rightarrow> w' | Some x \<Rightarrow> w'\<lparr>wf_error := Some x\<rparr>);
               h = workflowHistory st @ [w'']
           in (Inr (), st\<lparr>clockReads := Suc (clockReads st),
                 currentWorkflow := None,
                 workflowHistory := (if length h > 50 then drop (length h - 50) h else h)\<rparr>)))"

section \<open>Note validation (businessLogic.js)\<close>

record validation =
  isValid :: bool
  errors :: "string list"
  warnings :: "string list"
  businessRuleViolations :: "string list"

definition addError :: "string \<Rightarrow> validation \<Rightarrow> validation" where
  "addError msg v = v\<lparr>errors := errors v @ [msg], isValid := False\<rparr>"

definition addWarning :: "string \<Rightarrow> validation \<Rightarrow> validation" where
  "addWarning msg v = v\<lparr>warnings := warnings v @ [msg]\<rparr>"

definition addWarnings :: "string list \<Rightarrow> validation \<Rightarrow> validation" where
  "addWarnings msgs v = v\<lparr>warnings := warnings v @ msgs\<rparr>"

definition addViolation :: "string \<Rightarrow> validation \<Rightarrow> validation" where
  "addViolation msg v = v\<lparr>businessRuleViolations := businessRuleViolations v @ [msg], isValid := False\<rparr>"

text \<open>\<^verbatim>\<open>!v || v.trim().length === 0\<close>: a truthy value that is not a string has no \<^verbatim>\<open>trim\<close>.\<close>

definition isBlank :: "jsval \<Rightarrow> error + bool" where
  "isBlank v =
     (if \<not> truthy v then Inr True
      else (case v of Some (JStr s) \<Rightarrow> Inr (length (js_trim s) = 0)
            | _ \<Rightarrow> Inl (TypeError ''trim is not a function'')))"

text \<open>\<^verbatim>\<open>x.length\<close> of a value that is not null.\<close>

fun js_length :: "json \<Rightarrow> jsval" where
  "js_length (JStr s) = Some (JNum (int (length s)))"
| "js_length (JArr xs) = Some (JNum (int (length xs)))"
| "js_length (JObj kvs) = map_of kvs ''length''"
| "js_length v = None"

text \<open>\<^verbatim>\<open>v > n\<close> for a natural number \<open>n\<close>: undefined is NaN, null is 0, booleans are 0 and 1;
  strings, arrays and objects are read as numbers through their string form.\<close>

fun js_gt :: "env \<Rightarrow> jsval \<Rightarrow> nat \<Rightarrow> bool" where
  "js_gt e None n = False"
| "js_gt e (Some JNull) n = False"
| "js_gt e (Some (JBool b)) n = (b \<and> n = 0)"
| "js_gt e (Some (JNum k)) n = (k > int n)"
| "js_gt e (Some x) n = numericGreater e (js_toString x) n"

text \<open>\<^verbatim>\<open>v && v.length > n\<close>.\<close>

definition lengthExceeds :: "env \<Rightarrow> jsval \<Rightarrow> nat \<Rightarrow> bool" where
  "lengthExceeds e v n = (case v of None \<Rightarrow> False | Some x \<Rightarrow> truthy v \<and> js_gt e (js_length x) n)"

definition quote :: string where
  "quote = [CHR 0x22]"

definition newline :: string where
  "newline = [CHR 0x0A]"

text \<open>\<^verbatim>\<open>getTodayNoteCount\<close>: the stored notes whose \<^verbatim>\<open>createdAt\<close>, read as a date, prints the
  same calendar day as the clock.\<close>

definition noteDateString :: "env \<Rightarrow> obj \<Rightarrow> string" where
  "noteDateString e note =
     (case dateParse e (map_of note ''createdAt'') of
        None \<Rightarrow> ''Invalid Date'' | Some t \<Rightarrow> toDateString e t)"

definition getTodayNoteCount :: "env \<Rightarrow> nat action" where
  "getTodayNoteCount e =
     bindS (readClock e) (\<lambda>now st.
       (Inr (length (filter (\<lambda>note. noteDateString e note = toDateString e (int now)) (ls_notes st))),
        st))"

definition dailyLimitMessage :: "nat \<Rightarrow> string" where
  "dailyLimitMessage n = ''Daily note limit reached ('' @ decimal n @ '')''"

text \<open>\<^verbatim>\<open>if (c) { ... }\<close> around an update of the validation record.\<close>

definition applyIf :: "bool \<Rightarrow> ('a \<Rightarrow> 'a) \<Rightarrow> 'a \<Rightarrow> 'a" where
  "applyIf c f v = (if c then f v else v)"

text \<open>\<^verbatim>\<open>validateBusinessRules(noteData, validation)\<close>; a limit of 0 is falsy and switches the
  daily check off.\<close>

definition validateBusinessRules :: "env \<Rightarrow> obj \<Rightarrow> validation \<Rightarrow> validation action" where
  "validateBusinessRules e noteData v0 st0 =
     (let creation = note_creation st0 in
      bindS
        (if maxDailyNotes creation \<noteq> 0
         then bindS (getTodayNoteCount e) (\<lambda>todayCount.
                ret (applyIf (todayCount \<ge> maxDailyNotes creation)
                       (addViolation (dailyLimitMessage (maxDailyNotes creation))) v0))
         else ret v0)
        (\<lambda>v1.
           if \<not> allowEmptyContent creation
           then (case isBlank (map_of noteData ''content'') of
                   Inl err \<Rightarrow> throw err
                 | Inr blank \<Rightarrow>
                     ret (applyIf blank
                            (addViolation ''Empty content not allowed by business rules'') v1))
           else ret v1) st0)"

text \<open>The tag loop of \<^verbatim>\<open>validateNoteData\<close>: one warning for each truthy tag that is too long.\<close>

definition tagWarnings :: "env \<Rightarrow> nat \<Rightarrow> json list \<Rightarrow> string list" where
  "tagWarnings e maxLen tags =
     map (\<lambda>tag. ''Tag '' @ quote @ js_toString tag @ quote @ '' too long (max '' @ decimal maxLen @ '' chars)'')
       (filter (\<lambda>tag. truthy (Some tag) \<and> js_gt e (js_length tag) maxLen) tags)"

text \<open>\<^verbatim>\<open>validateNoteData(noteData)\<close>, check by check in the order of the source.\<close>

definition validateNoteData :: "env \<Rightarrow> obj \<Rightarrow> validation action" where
  "validateNoteData e noteData st0 =
     (let r = note_validation st0;
          title = map_of noteData ''title'';
          content = map_of noteData ''content'';
          category = map_of noteData ''category'';
          tags = map_of noteData ''tags'';
          priority = map_of noteData ''priority'';
          v0 = \<lparr>isValid = True, errors = [], warnings = [], businessRuleViolations = []\<rparr>
      in
      case (if title_required r then isBlank title else Inr False) of
        Inl err \<Rightarrow> (Inl err, st0)
      | Inr titleBlank \<Rightarrow>
      (let v1 = applyIf titleBlank (addError ''Title is required'') v0;
           v2 = applyIf (lengthExceeds e title (title_maxLength r))
                  (addError (''Title too long (max '' @ decimal (title_maxLength r) @ '' characters)'')) v1
       in
       case (if content_required r then isBlank content else Inr False) of
         Inl err \<Rightarrow> (Inl err, st0)
       | Inr contentBlank \<Rightarrow>
       (let v3 = applyIf contentBlank (addError ''Content is required'') v2;
            v4 = applyIf (lengthExceeds e content (content_maxLength r))
                   (addError (''Content too long (max '' @ decimal (content_maxLength r) @ '' characters)'')) v3;
            v5 = applyIf (category_required r \<and> \<not> truthy category)
                   (addError ''Category is required'') v4;
            v6 = applyIf (category_validCategories r \<and> truthy category
                    \<and> find (\<lambda>c. strict_eq (map_of c ''id'') category \<and> truthy (map_of c ''isActive''))
                          (loadCategories e) = None)
                   (addError ''Invalid category selected'') v5;
            v7 = (case tags of
                    Some (JArr ts) \<Rightarrow>
                      addWarnings (tagWarnings e (tags_maxLength r) ts)
                        (applyIf (length ts > tags_maxCount r)
                           (addWarning (''Too many tags (max '' @ decimal (tags_maxCount r) @ '')'')) v6)
                  | _ \<Rightarrow> v6);
            v8 = applyIf (truthy priority \<and> \<not> list_ex (\<lambda>p. priority = Some (JStr p)) (priority_enum r))
                   (addError ''Invalid priority value'') v7
        in validateBusinessRules e noteData v8 st0)))"

section \<open>Deletion workflow (businessLogic.js)\<close>

text \<open>\<^verbatim>\<open>loadNoteForEditing(noteId)\<close>: the first stored note whose \<^verbatim>\<open>id\<close> is the given string.\<close>

definition hasId :: "string \<Rightarrow> obj \<Rightarrow> bool" where
  "hasId noteId n = strict_eq (map_of n ''id'') (Some (JStr noteId))"

definition loadNoteForEditing :: "string \<Rightarrow> obj action" where
  "loadNoteForEditing noteId st =
     (case find (hasId noteId) (ls_notes st) of
        None \<Rightarrow> (Inl (Error ''Note not found''), st)
      | Some note \<Rightarrow> (Inr note, st))"

text \<open>\<^verbatim>\<open>validateDeletionPermissions(note)\<close>: \<^verbatim>\<open>canDelete\<close> and \<^verbatim>\<open>reason\<close>.\<close>

definition validateDeletionPermissions :: "obj \<Rightarrow> bool \<times> json" where
  "validateDeletionPermissions note =
     (if truthy (map_of note ''isProtected'')
      then (False, JStr ''Note is protected from deletion'')
      else (True, JNull))"

text \<open>\<^verbatim>\<open>confirmNoteDeletion(note)\<close> through \<^verbatim>\<open>modalSystem.confirmDelete\<close>, whose message the
  caller's option replaces. The pictographs of the dialog texts are left out.\<close>

definition confirmNoteDeletion :: "env \<Rightarrow> obj \<Rightarrow> bool action" where
  "confirmNoteDeletion e note =
     (let hasAudio = (if truthy (map_of note ''audio'')
                      then newline @ newline @
                           '' This note contains an audio recording that will also be deleted.''
                      else [])
      in confirm e
           \<lparr>dlg_title = ''Delete Confirmation'',
            dlg_message = ''Are you sure you want to delete '' @ quote @
               interpolate (map_of note ''title'') @ quote @ ''?'' @ hasAudio @ newline @ newline @
               ''This action cannot be undone.'',
            confirmText = ''Delete'', cancelText = ''Keep''\<rparr>)"

text \<open>\<^verbatim>\<open>createDeletionBackup(note)\<close>: a record with a copy of the note, the time and the type
  tag goes into the backup store under a key made of the clock reading and the note id.
  The function answers \<^verbatim>\<open>{backupId, success: true}\<close>; the model returns the \<open>backupId\<close>.\<close>

definition createDeletionBackup :: "env \<Rightarrow> obj \<Rightarrow> string action" where
  "createDeletionBackup e note =
     bindS (readClock e) (\<lambda>t.
     bindS (newISOString e) (\<lambda>stamp.
       (let backupId = ''deletion_backup_'' @ decimal t @ ''_'' @ interpolate (map_of note ''id'')
        in bindS (modify (\<lambda>st. st\<lparr>ls_note_backups :=
               set_prop backupId
                 (JObj [(''note'', JObj (spread (Some (JObj note)))),
                        (''timestamp'', JStr stamp),
                        (''type'', JStr ''deletion_backup'')])
                 (ls_note_backups st)\<rparr>))
             (\<lambda>_. ret backupId))))"

text \<open>\<^verbatim>\<open>performNoteDeletion(noteId)\<close>: the first stored note with that id is spliced out.\<close>

definition performNoteDeletion :: "string \<Rightarrow> json action" where
  "performNoteDeletion noteId st =
     (case findIndex (hasId noteId) (ls_notes st) of
        None \<Rightarrow> (Inl (Error ''Note not found for deletion''), st)
      | Some i \<Rightarrow>
          (Inr (JObj [(''success'', JBool True), (''deletedNote'', JObj (ls_notes st ! i))]),
           st\<lparr>ls_notes := splice1 i (ls_notes st)\<rparr>))"

definition handlePostDeletionActions :: "obj \<Rightarrow> unit action" where
  "handlePostDeletionActions deletedNote =
     bindS (toast ''success''
              (''Note '' @ quote @ interpolate (map_of deletedNote ''title'') @ quote @
               '' deleted successfully''))
       (\<lambda>_. updateDashboardStats)"

text \<open>
  \<^verbatim>\<open>startNoteDeletionWorkflow(noteId)\<close>. The result is the object the promise resolves
  with; a thrown error is recorded on the workflow and thrown again. On success the
  \<^verbatim>\<open>workflow\<close> entry reads \<^verbatim>\<open>this.currentWorkflow\<close> after \<open>completeWorkflow\<close> has reset it.
\<close>

definition startNoteDeletionWorkflow :: "env \<Rightarrow> string \<Rightarrow> json action" where
  "startNoteDeletionWorkflow e noteId =
     tryCatch
       (bindS (beginWorkflow e ''note_deletion'' (JObj [(''noteId'', JStr noteId)])) (\<lambda>_.
        bindS (loadNoteForEditing noteId) (\<lambda>note.
        bindS (pushStep ''load_note'' (JObj note)) (\<lambda>_.
        (let permissionResult = validateDeletionPermissions note in
        bindS (pushStep ''validate_permissions''
                 (JObj [(''canDelete'', JBool (fst permissionResult)),
                        (''reason'', snd permissionResult)])) (\<lambda>_.
        if \<not> fst permissionResult
        then throw (Error (''Cannot delete note: '' @ js_toString (snd permissionResult)))
        else
        bindS (confirmNoteDeletion e note) (\<lambda>userConfirmed.
        bindS (pushStep ''user_confirmation'' (JBool userConfirmed)) (\<lambda>_.
        if \<not> userConfirmed
        then bindS (completeWorkflow e ''cancelled'' None) (\<lambda>_.
               ret (JObj [(''success'', JBool False),
                          (''reason'', JStr ''User cancelled deletion'')]))
        else
        bindS (createDeletionBackup e note) (\<lambda>backupId.
        bindS (pushStep ''create_backup''
                 (JObj [(''backupId'', JStr backupId), (''success'', JBool True)])) (\<lambda>_.
        bindS (performNoteDeletion noteId) (\<lambda>deletionResult.
        bindS (pushStep ''deletion'' deletionResult) (\<lambda>_.
        bindS (handlePostDeletionActions note) (\<lambda>_.
        bindS (completeWorkflow e ''success'' None) (\<lambda>_.
          ret (JObj [(''success'', JBool True),
                     (''deletedNote'', JObj note),
                     (''backup'', JStr backupId),
                     (''workflow'', JNull)])))))))))))))))
       (\<lambda>err. bindS (completeWorkflow e ''error'' (Some err)) (\<lambda>_. throw err))"

section \<open>Edit diff (businessLogic.js)\<close>

record change =
  field :: string
  change_from :: jsval
  change_to :: jsval

text \<open>
  \<^verbatim>\<open>calculateNoteChanges(original, updated)\<close>. \<^verbatim>\<open>JSON.stringify\<close> gives two values the same
  text exactly when they are the same JSON value (and undefined for undefined), so the
  comparison of the tags is equality of values.
\<close>

definition calculateNoteChanges :: "obj \<Rightarrow> obj \<Rightarrow> change list" where
  "calculateNoteChanges original updated =
     (if \<not> strict_eq (map_of original ''title'') (map_of updated ''title'')
      then [\<lparr>field = ''title'', change_from = map_of original ''title'',
             change_to = map_of updated ''title''\<rparr>] else [])
     @ (if \<not> strict_eq (map_of original ''content'') (map_of updated ''content'')
      then [\<lparr>field = ''content'', change_from = map_of original ''content'',
             change_to = map_of updated ''content''\<rparr>] else [])
     @ (if \<not> strict_eq (map_of original ''category'') (map_of updated ''category'')
      then [\<lparr>field = ''category'', change_from = map_of original ''category'',
             change_to = map_of updated ''category''\<rparr>] else [])
     @ (if map_of original ''tags'' \<noteq> map_of updated ''tags''
      then [\<lparr>field = ''tags'', change_from = map_of original ''tags'',
             change_to = map_of updated ''tags''\<rparr>] else [])
     @ (if \<not> strict_eq (map_of original ''priority'') (map_of updated ''priority'')
      then [\<lparr>field = ''priority'', change_from = map_of original ''priority'',
             change_to = map_of updated ''priority''\<rparr>] else [])
     @ (if truthy (map_of original ''audio'') \<noteq> truthy (map_of updated ''audio'')
      then [\<lparr>field = ''audio'', change_from = Some (JBool (truthy (map_of original ''audio''))),
             change_to = Some (JBool (truthy (map_of updated ''audio'')))\<rparr>] else [])"

section \<open>Export codec (data manager)\<close>

text \<open>What \<^verbatim>\<open>exportData\<close> returns: the text of a JSON document, given by the value it
  denotes, or plain text.\<close>

datatype exported = JsonText json | PlainText string

definition errorMessage :: "error \<Rightarrow> string" where
  "errorMessage err = (case err of Error m \<Rightarrow> m | TypeError m \<Rightarrow> m)"

text \<open>\<^verbatim>\<open>v || d\<close>.\<close>

definition orElse :: "jsval \<Rightarrow> json \<Rightarrow> json" where
  "orElse v d = (case v of None \<Rightarrow> d | Some x \<Rightarrow> if truthy v then x else d)"

text \<open>\<^verbatim>\<open>s.replace(/"/g, '""')\<close>.\<close>

definition doubleQuotes :: "string \<Rightarrow> string" where
  "doubleQuotes s = concat (map (\<lambda>c. if c = CHR 0x22 then [c, c] else [c]) s)"

text \<open>\<^verbatim>\<open>(v || '').replace(/"/g, '""')\<close>: a truthy value that is not a string has no \<^verbatim>\<open>replace\<close>.\<close>

definition escapedText :: "jsval \<Rightarrow> error + string" where
  "escapedText v =
     (case orElse v (JStr []) of
        JStr s \<Rightarrow> Inr (doubleQuotes s)
      | _ \<Rightarrow> Inl (TypeError ''replace is not a function''))"

text \<open>An element inside \<^verbatim>\<open>Array.prototype.join\<close>: null and undefined print as nothing.\<close>

definition joinElement :: "jsval \<Rightarrow> string" where
  "joinElement v = (case v of None \<Rightarrow> [] | Some JNull \<Rightarrow> [] | Some x \<Rightarrow> js_toString x)"

text \<open>\<^verbatim>\<open>(v || []).join(sep)\<close>: a truthy value that is not an array has no \<^verbatim>\<open>join\<close>.\<close>

definition joinedOrEmpty :: "jsval \<Rightarrow> string \<Rightarrow> error + string" where
  "joinedOrEmpty v sep =
     (case orElse v (JArr []) of
        JArr xs \<Rightarrow> Inr (js_join sep (map (\<lambda>x. joinElement (Some x)) xs))
      | _ \<Rightarrow> Inl (TypeError ''join is not a function''))"

definition csvHeaders :: "string list" where
  "csvHeaders =
     [''ID'', ''Title'', ''Content'', ''Category'', ''Priority'', ''Tags'', ''Has Audio'',
      ''Is Public'', ''Created Date'', ''Modified Date'', ''Character Count'']"

text \<open>One row of \<^verbatim>\<open>exportToCSV\<close>: the eleven cells of a note, joined by commas.\<close>

definition csvCells :: "obj \<Rightarrow> error + string list" where
  "csvCells note =
     bindE (escapedText (map_of note ''title'')) (\<lambda>title.
     bindE (escapedText (map_of note ''content'')) (\<lambda>content.
     bindE (joinedOrEmpty (map_of note ''tags'') ''; '') (\<lambda>tags.
       Inr [quote @ js_toString (orElse (map_of note ''id'') (JStr [])) @ quote,
            quote @ title @ quote,
            quote @ content @ quote,
            quote @ js_toString (orElse (map_of note ''category'') (JStr [])) @ quote,
            quote @ js_toString (orElse (map_of note ''priority'') (JStr ''medium'')) @ quote,
            quote @ tags @ quote,
            (if truthy (map_of note ''audio'') then ''Yes'' else ''No''),
            (if truthy (map_of note ''isPublic'') then ''Yes'' else ''No''),
            quote @ js_toString (orElse (map_of note ''createdAt'') (JStr [])) @ quote,
            quote @ js_toString (orElse (map_of note ''lastModified'') (JStr [])) @ quote,
            joinElement (js_length (orElse (map_of note ''content'') (JStr [])))])))"

fun csvRows :: "obj list \<Rightarrow> error + string" where
  "csvRows [] = Inr []"
| "csvRows (note # rest) =
     (case csvCells note of
        Inl err \<Rightarrow> Inl err
      | Inr cells \<Rightarrow>
          (case csvRows rest of
             Inl err \<Rightarrow> Inl err
           | Inr others \<Rightarrow> Inr (js_join '','' cells @ newline @ others)))"

definition exportToCSV :: "obj list \<Rightarrow> error + string" where
  "exportToCSV notes =
     bindE (csvRows notes) (\<lambda>rows. Inr (js_join '','' csvHeaders @ newline @ rows))"

text \<open>
  \<^verbatim>\<open>exportData(notes, format)\<close>. Loading the settings and the categories falls back to
  defaults and does not throw; whatever the conversion throws is thrown again as
  \<^verbatim>\<open>Export failed: ...\<close>.
\<close>

definition exportData :: "env \<Rightarrow> obj list \<Rightarrow> string \<Rightarrow> exported action" where
  "exportData e notes format =
     (if toLowerCase format = ''json''
      then bindS (newISOString e) (\<lambda>date.
             ret (JsonText (JObj
               [(''exportInfo'', JObj [(''date'', JStr date),
                                      (''version'', orElse (settingsVersion e) (JStr ''2.1.0'')),
                                      (''format'', JStr ''json''),
                                      (''totalNotes'', JNum (int (length notes)))]),
                (''notes'', JArr (map JObj notes)),
                (''categories'', JArr (map JObj (loadCategories e))),
                (''metadata'', getNotesStatistics e)])))
      else if toLowerCase format = ''csv''
      then (case exportToCSV notes of
              Inl err \<Rightarrow> throw (Error (''Export failed: '' @ errorMessage err))
            | Inr txt \<Rightarrow> ret (PlainText txt))
      else if toLowerCase format = ''txt''
      then (case exportToTXT e notes of
              Inl err \<Rightarrow> throw (Error (''Export failed: '' @ errorMessage err))
            | Inr txt \<Rightarrow> ret (PlainText txt))
      else throw (Error (''Export failed: Unsupported export format: '' @ format)))"

text \<open>\<^verbatim>\<open>JSON.parse\<close> of an exported text: the value of a JSON document; the CSV and
  plain-text layouts start with \<^verbatim>\<open>ID,\<close> and \<^verbatim>\<open>NOTES EXPORT\<close> and are no JSON.\<close>

definition parseExported :: "exported \<Rightarrow> error + json" where
  "parseExported x =
     (case x of JsonText v \<Rightarrow> Inr v | PlainText t \<Rightarrow> Inl (Error ''SyntaxError''))"

section \<open>Import workflow (businessLogic.js)\<close>

text \<open>
  An uploaded file: name, size, MIME type, the text a FileReader reads (\<open>None\<close> when the
  read fails) and the value \<^verbatim>\<open>JSON.parse\<close> makes of that text (\<open>None\<close> when it is no JSON).
\<close>

record upload =
  file_name :: string
  file_size :: nat
  file_type :: string
  file_text :: "string option"
  file_json :: "json option"

record importResult =
  imported :: nat
  skipped :: nat
  import_errors :: "string list"

definition validateImportFile :: "upload \<Rightarrow> bool \<times> string list" where
  "validateImportFile f =
     (let errs1 = (if file_size f > 10 * 1024 * 1024 then [''File too large (max 10MB)''] else []);
          errs2 = (if file_type f \<notin> set [''application/json'', ''text/plain'', ''text/csv'']
                   then [''Unsupported file type''] else [])
      in (errs1 = [] \<and> errs2 = [], errs1 @ errs2))"

text \<open>\<^verbatim>\<open>s.split(sep)\<close> for a separator that is not empty.\<close>

function js_split_from :: "string \<Rightarrow> string \<Rightarrow> string \<Rightarrow> string list" where
  "js_split_from sep acc [] = [rev acc]"
| "js_split_from sep acc (c # cs) =
     (if sep \<noteq> [] \<and> prefix sep (c # cs)
      then rev acc # js_split_from sep [] (drop (length sep) (c # cs))
      else js_split_from sep (c # acc) cs)"
  by pat_completeness auto
termination
  by (relation "measure (\<lambda>(sep, acc, s). length s)") (auto simp: neq_Nil_conv)

definition js_split :: "string \<Rightarrow> string \<Rightarrow> string list" where
  "js_split sep s = js_split_from sep [] s"

text \<open>One block of \<^verbatim>\<open>parseTextToNotes\<close>: the first line is the title, the rest the content.
  \<^verbatim>\<open>split\<close> always yields at least one line, so \<^verbatim>\<open>lines[0]\<close> is a string.\<close>

definition textNote :: "env \<Rightarrow> nat \<Rightarrow> string \<Rightarrow> json action" where
  "textNote e index block =
     (let lines = js_split newline (js_trim block);
          first = (case lines of [] \<Rightarrow> [] | l # _ \<Rightarrow> l)
      in bindS (generateNoteId e) (\<lambda>noteId.
         bindS (newISOString e) (\<lambda>created.
         bindS (newISOString e) (\<lambda>modified.
           ret (JObj
             [(''id'', JStr noteId),
              (''title'', orElse (Some (JStr first)) (JStr (''Imported Note '' @ decimal (index + 1)))),
              (''content'', orElse (Some (JStr (js_join newline (tl lines)))) (JStr first)),
              (''category'', JStr ''personal''),
              (''tags'', JArr [JStr ''imported'']),
              (''priority'', JStr ''medium''),
              (''isPublic'', JBool False),
              (''audio'', JNull),
              (''createdAt'', JStr created),
              (''lastModified'', JStr modified)])))))"

fun textNotes :: "env \<Rightarrow> nat \<Rightarrow> string list \<Rightarrow> json list action" where
  "textNotes e index [] st = (Inr [], st)"
| "textNotes e index (block # rest) st =
     (case textNote e index block st of
        (Inl err, st') \<Rightarrow> (Inl err, st')
      | (Inr note, st') \<Rightarrow>
          (case textNotes e (Suc index) rest st' of
             (Inl err, st'') \<Rightarrow> (Inl err, st'')
           | (Inr notes, st'') \<Rightarrow> (Inr (note # notes), st'')))"

definition parseTextToNotes :: "env \<Rightarrow> string \<Rightarrow> json list action" where
  "parseTextToNotes e content = textNotes e 0 (js_split (newline @ newline) content)"

text \<open>\<^verbatim>\<open>parseImportFile(file)\<close>: the parsed data; the format is the file's type. For a
  text that is no JSON document the source appends the engine's own message of the
  SyntaxError, which differs between engines; \<open>SyntaxError\<close> stands for it.\<close>

definition parseImportFile :: "env \<Rightarrow> upload \<Rightarrow> json action" where
  "parseImportFile e f =
     (case file_text f of
        None \<Rightarrow> throw (Error ''Failed to read file'')
      | Some content \<Rightarrow>
          if file_type f = ''application/json''
          then (case file_json f of
                  None \<Rightarrow> throw (Error ''Failed to parse file: SyntaxError'')
                | Some d \<Rightarrow> ret d)
          else tryCatch
                 (bindS (parseTextToNotes e content) (\<lambda>notes. ret (JObj [(''notes'', JArr notes)])))
                 (\<lambda>err. throw (Error (''Failed to parse file: '' @ errorMessage err))))"

text \<open>The \<^verbatim>\<open>forEach\<close> of \<^verbatim>\<open>validateImportData\<close>: warnings for a falsy title or content.\<close>

fun missingFieldWarnings :: "nat \<Rightarrow> json list \<Rightarrow> error + string list" where
  "missingFieldWarnings index [] = Inr []"
| "missingFieldWarnings index (note # rest) =
     (case get_prop (Some note) ''title'' of
        Inl err \<Rightarrow> Inl err
      | Inr title \<Rightarrow>
     (case get_prop (Some note) ''content'' of
        Inl err \<Rightarrow> Inl err
      | Inr content \<Rightarrow>
     (case missingFieldWarnings (Suc index) rest of
        Inl err \<Rightarrow> Inl err
      | Inr others \<Rightarrow>
          Inr ((if \<not> truthy title then [''Note '' @ decimal (index + 1) @ '' missing title''] else [])
             @ (if \<not> truthy content then [''Note '' @ decimal (index + 1) @ '' missing content''] else [])
             @ others))))"

text \<open>\<^verbatim>\<open>validateImportData(data)\<close>: \<^verbatim>\<open>isValid\<close> and the warnings.\<close>

definition validateImportData :: "json \<Rightarrow> error + bool \<times> string list" where
  "validateImportData dat =
     bindE (get_prop (Some dat) ''notes'') (\<lambda>notes.
       (let isValid0 = True;
            w0 = (case notes of Some (JArr ns) \<Rightarrow> []
                  | _ \<Rightarrow> [''No valid notes found in import data''])
        in if truthy notes
           then (case notes of
                   Some (JArr ns) \<Rightarrow>
                     bindE (missingFieldWarnings 0 ns) (\<lambda>ws. Inr (isValid0, w0 @ ws))
                 | _ \<Rightarrow> Inl (TypeError ''forEach is not a function''))
           else Inr (isValid0, w0)))"

text \<open>\<^verbatim>\<open>v ? v.length : 0\<close>.\<close>

definition lengthOrZero :: "jsval \<Rightarrow> jsval" where
  "lengthOrZero v = (case v of None \<Rightarrow> Some (JNum 0)
                     | Some x \<Rightarrow> if truthy v then js_length x else Some (JNum 0))"

text \<open>\<^verbatim>\<open>showImportPreview(data)\<close>: the answer of the user; the options are constant.\<close>

definition previewOptions :: json where
  "previewOptions = JObj [(''mergeCategories'', JBool True), (''mergeTemplates'', JBool True),
                          (''skipDuplicates'', JBool True)]"

definition showImportPreview :: "env \<Rightarrow> json \<Rightarrow> bool action" where
  "showImportPreview e dat =
     (case get_prop (Some dat) ''notes'' of Inl err \<Rightarrow> throw err | Inr notes \<Rightarrow>
      case get_prop (Some dat) ''categories'' of Inl err \<Rightarrow> throw err | Inr categories \<Rightarrow>
      case get_prop (Some dat) ''templates'' of Inl err \<Rightarrow> throw err | Inr templates \<Rightarrow>
        confirm e
          \<lparr>dlg_title = ''Confirm Import'',
           dlg_message = ''Import Preview:'' @ newline @ ''        '' @ newline @
             '' Notes: '' @ interpolate (lengthOrZero notes) @ newline @
             '' Categories: '' @ interpolate (lengthOrZero categories) @ newline @
             '' Templates: '' @ interpolate (lengthOrZero templates) @ newline @ newline @
             ''This will add the imported items to your existing data.'',
           confirmText = ''Import'', cancelText = ''Cancel''\<rparr>)"

text \<open>The object literal of \<^verbatim>\<open>performDataImport\<close>: the note's own properties, then a new
  \<^verbatim>\<open>id\<close>, \<^verbatim>\<open>createdAt\<close> and \<^verbatim>\<open>lastModified\<close>.\<close>

definition importedNote :: "env \<Rightarrow> json \<Rightarrow> obj action" where
  "importedNote e note =
     bindS (generateNoteId e) (\<lambda>noteId.
     bindS (newISOString e) (\<lambda>created.
     bindS (newISOString e) (\<lambda>modified.
       ret (set_prop ''lastModified'' (JStr modified)
             (set_prop ''createdAt'' (JStr created)
               (set_prop ''id'' (JStr noteId) (spread (Some note))))))))"

text \<open>One turn of the loop with its \<^verbatim>\<open>try\<close> and \<^verbatim>\<open>catch\<close>; the handler reads \<^verbatim>\<open>note.title\<close>.\<close>

definition importStep :: "env \<Rightarrow> json \<Rightarrow> obj list \<times> importResult \<Rightarrow> (obj list \<times> importResult) action" where
  "importStep e note acc =
     tryCatch
       (bindS (importedNote e note) (\<lambda>n.
          ret (fst acc @ [n], (snd acc)\<lparr>imported := imported (snd acc) + 1\<rparr>)))
       (\<lambda>err. case get_prop (Some note) ''title'' of
                 Inl err' \<Rightarrow> throw err'
               | Inr title \<Rightarrow>
                   ret (fst acc, (snd acc)\<lparr>import_errors := import_errors (snd acc) @
                     [''Failed to import note '' @ quote @ interpolate title @ quote @ '': '' @
                      errorMessage err]\<rparr>))"

fun importLoop :: "env \<Rightarrow> json list \<Rightarrow> obj list \<times> importResult \<Rightarrow> (obj list \<times> importResult) action" where
  "importLoop e [] acc st = (Inr acc, st)"
| "importLoop e (note # rest) acc st =
     (case importStep e note acc st of
        (Inl err, st') \<Rightarrow> (Inl err, st')
      | (Inr acc', st') \<Rightarrow> importLoop e rest acc' st')"

text \<open>\<^verbatim>\<open>performDataImport(data, options)\<close>.\<close>

definition performDataImport :: "env \<Rightarrow> json \<Rightarrow> importResult action" where
  "performDataImport e dat =
     (let result = \<lparr>imported = 0, skipped = 0, import_errors = []\<rparr> in
      case get_prop (Some dat) ''notes'' of
        Inl err \<Rightarrow> throw err
      | Inr (Some (JArr incoming)) \<Rightarrow>
          (\<lambda>st. bindS (importLoop e incoming (ls_notes st, result)) (\<lambda>acc.
                 bindS (modify (\<lambda>s. s\<lparr>ls_notes := fst acc\<rparr>)) (\<lambda>_. ret (snd acc))) st)
      | Inr _ \<Rightarrow> ret result)"

definition handlePostImportActions :: "importResult \<Rightarrow> unit action" where
  "handlePostImportActions r =
     bindS (toast ''success'' (''Import completed! '' @ decimal (imported r) @ '' notes imported'')) (\<lambda>_.
     bindS (if length (import_errors r) > 0
            then toast ''warning'' (decimal (length (import_errors r)) @ '' items had errors'')
            else ret ()) (\<lambda>_.
       updateDashboardStats))"

definition importResultJson :: "importResult \<Rightarrow> json" where
  "importResultJson r =
     JObj [(''imported'', JNum (int (imported r))), (''skipped'', JNum (int (skipped r))),
           (''errors'', JArr (map JStr (import_errors r)))]"

text \<open>\<^verbatim>\<open>startImportWorkflow(file)\<close>.\<close>

definition startImportWorkflow :: "env \<Rightarrow> upload \<Rightarrow> json action" where
  "startImportWorkflow e f =
     tryCatch
       (bindS (beginWorkflow e ''data_import''
                 (JObj [(''filename'', JStr (file_name f)), (''fileSize'', JNum (int (file_size f)))])) (\<lambda>_.
        (let fileValidation = validateImportFile f in
        bindS (pushStep ''validate_file''
                 (JObj [(''isValid'', JBool (fst fileValidation)),
                        (''errors'', JArr (map JStr (snd fileValidation)))])) (\<lambda>_.
        if \<not> fst fileValidation
        then throw (Error (''Invalid file: '' @ js_join '', '' (snd fileValidation)))
        else
        bindS (parseImportFile e f) (\<lambda>dat.
        bindS (pushStep ''parse_file'' (JObj [(''data'', dat), (''format'', JStr (file_type f))])) (\<lambda>_.
        case validateImportData dat of Inl err \<Rightarrow> throw err | Inr dataValidation \<Rightarrow>
        bindS (pushStep ''validate_data''
                 (JObj [(''isValid'', JBool (fst dataValidation)),
                        (''warnings'', JArr (map JStr (snd dataValidation)))])) (\<lambda>_.
        bindS (if \<not> fst dataValidation
               then confirm e
                      \<lparr>dlg_title = ''Import Warnings'',
                       dlg_message = ''Import has issues:'' @ newline @
                          js_join newline (snd dataValidation) @ newline @ newline @ ''Proceed anyway?'',
                       confirmText = ''Import Anyway'', cancelText = ''Cancel''\<rparr>
               else ret True) (\<lambda>proceed.
        if \<not> proceed
        then bindS (completeWorkflow e ''cancelled'' None) (\<lambda>_.
               ret (JObj [(''success'', JBool False),
                          (''reason'', JStr ''User cancelled due to validation issues'')]))
        else
        bindS (showImportPreview e dat) (\<lambda>confirmed.
        bindS (pushStep ''preview''
                 (JObj [(''confirmed'', JBool confirmed), (''options'', previewOptions)])) (\<lambda>_.
        if \<not> confirmed
        then bindS (completeWorkflow e ''cancelled'' None) (\<lambda>_.
               ret (JObj [(''success'', JBool False),
                          (''reason'', JStr ''User cancelled after preview'')]))
        else
        bindS (performDataImport e dat) (\<lambda>importResult.
        bindS (pushStep ''import'' (importResultJson importResult)) (\<lambda>_.
        bindS (handlePostImportActions importResult) (\<lambda>_.
        bindS (completeWorkflow e ''success'' None) (\<lambda>_.
          ret (JObj [(''success'', JBool True),
                     (''imported'', JNum (int (imported importResult))),
                     (''skipped'', JNum (int (skipped importResult))),
                     (''errors'', JArr (map JStr (import_errors importResult)))])))))))))))))))
       (\<lambda>err. bindS (completeWorkflow e ''error'' (Some err)) (\<lambda>_. throw err))"

section \<open>Error categorisation (errorHandler.js)\<close>

text \<open>\<^verbatim>\<open>(v || '').toLowerCase()\<close>: a truthy value that is not a string has no such method.\<close>

definition lowerOrEmpty :: "jsval \<Rightarrow> error + string" where
  "lowerOrEmpty v =
     (if truthy v
      then (case v of Some (JStr s) \<Rightarrow> Inr (toLowerCase s)
            | _ \<Rightarrow> Inl (TypeError ''toLowerCase is not a function''))
      else Inr (toLowerCase []))"

text \<open>\<^verbatim>\<open>ErrorHandlingSystem.categorizeError(error)\<close>, branch by branch.\<close>

definition categorizeError :: "jsval \<Rightarrow> error + string" where
  "categorizeError err =
     bindE (get_prop err ''message'') (\<lambda>m.
     bindE (lowerOrEmpty m) (\<lambda>message.
     bindE (get_prop err ''name'') (\<lambda>n.
     bindE (lowerOrEmpty n) (\<lambda>name.
       if js_includes message ''fetch'' \<or> js_includes message ''network'' \<or>
          js_includes message ''connection'' \<or> js_includes name ''networkerror''
       then Inr ''NETWORK''
       else if js_includes message ''storage'' \<or> js_includes message ''quota'' \<or>
          js_includes name ''quotaexceedederror''
       then Inr ''STORAGE''
       else if js_includes message ''permission'' \<or> js_includes message ''denied'' \<or>
          js_includes message ''not allowed'' \<or> js_includes name ''notallowederror''
       then Inr ''PERMISSION''
       else if js_includes message ''audio'' \<or> js_includes message ''microphone'' \<or>
          js_includes message ''media'' \<or> js_includes name ''mediaerror''
       then Inr ''AUDIO''
       else if js_includes message ''file'' \<or> js_includes message ''blob'' \<or>
          js_includes message ''upload'' \<or> js_includes message ''download''
       then Inr ''FILE''
       else if js_includes message ''validation'' \<or> js_includes message ''invalid'' \<or>
          js_includes message ''required''
       then Inr ''VALIDATION''
       else bindE (get_prop err ''type'') (\<lambda>ty.
         if ty = Some (JStr ''VALIDATION'') then Inr ''VALIDATION'' else Inr ''UNKNOWN'')))))"

text \<open>
  The specification's reading of the same function: six keyword tests, tried in the fixed
  order Network, Storage, Permission, Audio, File, Validation; the first test that holds
  names the category, and Unknown is left when none holds.
\<close>

definition keywordTests :: "string \<Rightarrow> string \<Rightarrow> jsval \<Rightarrow> (string \<times> bool) list" where
  "keywordTests message name ty =
     [(''NETWORK'', js_includes message ''fetch'' \<or> js_includes message ''network'' \<or>
          js_includes message ''connection'' \<or> js_includes name ''networkerror''),
      (''STORAGE'', js_includes message ''storage'' \<or> js_includes message ''quota'' \<or>
          js_includes name ''quotaexceedederror''),
      (''PERMISSION'', js_includes message ''permission'' \<or> js_includes message ''denied'' \<or>
          js_includes message ''not allowed'' \<or> js_includes name ''notallowederror''),
      (''AUDIO'', js_includes message ''audio'' \<or> js_includes message ''microphone'' \<or>
          js_includes message ''media'' \<or> js_includes name ''mediaerror''),
      (''FILE'', js_includes message ''file'' \<or> js_includes message ''blob'' \<or>
          js_includes message ''upload'' \<or> js_includes message ''download''),
      (''VALIDATION'', js_includes message ''validation'' \<or> js_includes message ''invalid'' \<or>
          js_includes message ''required'' \<or> ty = Some (JStr ''VALIDATION''))]"

fun firstMatch :: "(string \<times> bool) list \<Rightarrow> string" where
  "firstMatch [] = ''UNKNOWN''"
| "firstMatch ((category, holds) # rest) = (if holds then category else firstMatch rest)"

text \<open>The lower-cased text of a field that is a string, the empty text otherwise.\<close>

definition loweredText :: "jsval \<Rightarrow> string" where
  "loweredText v = (case v of Some (JStr s) \<Rightarrow> toLowerCase s | _ \<Rightarrow> [])"

definition stringOrFalsy :: "jsval \<Rightarrow> bool" where
  "stringOrFalsy v = (case v of Some (JStr s) \<Rightarrow> True | _ \<Rightarrow> \<not> truthy v)"

section \<open>Round trip and reference values\<close>

text \<open>The note that \<open>importedNote\<close> builds when the clock has been read \<open>c\<close> times and \<open>r\<close>
  random numbers have been drawn, and the notes a whole import loop builds.\<close>

definition freshNote :: "env \<Rightarrow> json \<Rightarrow> nat \<Rightarrow> nat \<Rightarrow> obj" where
  "freshNote e note c r =
     set_prop ''lastModified'' (JStr (toISOString e (dateNow e (c + 2))))
       (set_prop ''createdAt'' (JStr (toISOString e (dateNow e (c + 1))))
         (set_prop ''id'' (JStr (''note_'' @ decimal (dateNow e c) @ ''_'' @ mathRandom e r))
           (spread (Some note))))"

fun freshNotes :: "env \<Rightarrow> json list \<Rightarrow> nat \<Rightarrow> nat \<Rightarrow> obj list" where
  "freshNotes e [] c r = []"
| "freshNotes e (note # rest) c r = freshNote e note c r # freshNotes e rest (c + 3) (Suc r)"

text \<open>Export to JSON, parse the text, import the parsed object.\<close>

definition exportThenImport :: "env \<Rightarrow> obj list \<Rightarrow> importResult action" where
  "exportThenImport e notes =
     bindS (exportData e notes ''json'') (\<lambda>x.
       case parseExported x of
         Inl err \<Rightarrow> throw err
       | Inr doc \<Rightarrow> performDataImport e doc)"

text \<open>
  A concrete environment and state for worked examples: every clock reading falls in the
  millisecond 1700000000000 (2023-11-14T22:13:20.000Z), the user declines every dialog,
  and the store is empty.
\<close>

definition exampleEnv :: env where
  "exampleEnv =
     \<lparr>dateNow = (\<lambda>k. 1700000000000),
      mathRandom = (\<lambda>k. ''k3j9x2m1q''),
      toISOString = (\<lambda>t. ''2023-11-14T22:13:20.'' @ decimal (t mod 1000 div 100) @
                      decimal (t mod 100 div 10) @ decimal (t mod 10) @ ''Z''),
      toDateString = (\<lambda>t. if t < 1700006400000 then ''Tue Nov 14 2023'' else ''Wed Nov 15 2023''),
      dateParse = (\<lambda>v. if v = Some (JStr ''2023-11-14T22:13:20.000Z'') then Some 1700000000000 else None),
      confirmAnswer = (\<lambda>k. False),
      loadCategories = [[(''id'', JStr ''personal''), (''name'', JStr ''Personal''), (''isActive'', JBool True)]],
      settingsVersion = None,
      getNotesStatistics = JObj [(''total'', JNum 0)],
      numericGreater = (\<lambda>s n. False),
      exportToTXT = (\<lambda>ns. Inr [])\<rparr>"

definition emptyState :: state where
  "emptyState =
     \<lparr>ls_notes = [], ls_note_backups = [], currentWorkflow = None, workflowHistory = [],
      note_creation = initial_note_creation, note_validation = initial_note_validation,
      clockReads = 0, randomDraws = 0, dialogs = [], toasts = [], events = []\<rparr>"

definition exampleNote :: obj where
  "exampleNote =
     [(''id'', JStr ''note_1700000000000_a1b2c3d4e''),
      (''title'', JStr ''Groceries''),
      (''content'', JStr ''Milk and eggs''),
      (''category'', JStr ''personal''),
      (''tags'', JArr [JStr ''home'']),
      (''priority'', JStr ''medium''),
      (''isPublic'', JBool False),
      (''audio'', JNull),
      (''createdAt'', JStr ''2023-11-14T22:13:20.000Z''),
      (''lastModified'', JStr ''2023-11-14T22:13:20.000Z'')]"

text \<open>An upload whose only note has no title, a note with a quotation mark in a tag, and
  the header line of the CSV export.\<close>

definition missingTitleUpload :: upload where
  "missingTitleUpload =
     \<lparr>file_name = ''notes.json'', file_size = 34, file_type = ''application/json'',
      file_text = Some (''{'' @ quote @ ''notes'' @ quote @ '':[{'' @ quote @ ''content'' @ quote @
                        '':'' @ quote @ ''Buy milk'' @ quote @ ''}]}''),
      file_json = Some (JObj [(''notes'', JArr [JObj [(''content'', JStr ''Buy milk'')]])])\<rparr>"

definition quotedTagNote :: obj where
  "quotedTagNote =
     [(''id'', JStr ''n1''),
      (''title'', JStr ''Quote''),
      (''content'', JStr (''He said '' @ quote @ ''hi'' @ quote)),
      (''category'', JStr ''personal''),
      (''tags'', JArr [JStr (''say '' @ quote @ ''hi'' @ quote), JStr ''talk'']),
      (''priority'', JStr ''low''),
      (''createdAt'', JStr ''2023-11-14T22:13:20.000Z''),
      (''lastModified'', JStr ''2023-11-14T22:13:20.000Z'')]"

definition csvHeaderLine :: string where
  "csvHeaderLine = ''ID,Title,Content,Category,Priority,Tags,Has Audio,Is Public,Created Date,Modified Date,Character Count''"

text \<open>
  Names for the validation theorems: the number of stored notes created on the day the
  clock shows, the two length messages, and the outcome of \<open>validateNoteData\<close> field by
  field for a note whose title and content are strings or falsy.
\<close>

definition todayNoteCount :: "env \<Rightarrow> state \<Rightarrow> nat" where
  "todayNoteCount e st =
     length (filter (\<lambda>n. noteDateString e n = toDateString e (int (dateNow e (clockReads st))))
               (ls_notes st))"

definition titleTooLong :: string where
  "titleTooLong = ''Title too long (max 200 characters)''"

definition contentTooLong :: string where
  "contentTooLong = ''Content too long (max 50000 characters)''"

definition blankText :: "jsval \<Rightarrow> bool" where
  "blankText v = (case v of Some (JStr s) \<Rightarrow> length (js_trim s) = 0 | _ \<Rightarrow> True)"

definition noteErrors :: "env \<Rightarrow> state \<Rightarrow> obj \<Rightarrow> string list" where
  "noteErrors e st nd =
     (let r = note_validation st;
          title = map_of nd ''title'';
          content = map_of nd ''content'';
          category = map_of nd ''category'';
          priority = map_of nd ''priority''
      in (if title_required r \<and> blankText title then [''Title is required''] else [])
       @ (if lengthExceeds e title (title_maxLength r)
          then [''Title too long (max '' @ decimal (title_maxLength r) @ '' characters)''] else [])
       @ (if content_required r \<and> blankText content then [''Content is required''] else [])
       @ (if lengthExceeds e content (content_maxLength r)
          then [''Content too long (max '' @ decimal (content_maxLength r) @ '' characters)''] else [])
       @ (if category_required r \<and> \<not> truthy category then [''Category is required''] else [])
       @ (if category_validCategories r \<and> truthy category
             \<and> find (\<lambda>c. strict_eq (map_of c ''id'') category \<and> truthy (map_of c ''isActive''))
                   (loadCategories e) = None
          then [''Invalid category selected''] else [])
       @ (if truthy priority \<and> \<not> list_ex (\<lambda>p. priority = Some (JStr p)) (priority_enum r)
          then [''Invalid priority value''] else []))"

definition validationWarnings :: "env \<Rightarrow> state \<Rightarrow> obj \<Rightarrow> string list" where
  "validationWarnings e st nd =
     (case map_of nd ''tags'' of
        Some (JArr ts) \<Rightarrow>
          (if length ts > tags_maxCount (note_validation st)
           then [''Too many tags (max '' @ decimal (tags_maxCount (note_validation st)) @ '')''] else [])
          @ tagWarnings e (tags_maxLength (note_validation st)) ts
      | _ \<Rightarrow> [])"

definition noteViolations :: "env \<Rightarrow> state \<Rightarrow> obj \<Rightarrow> string list" where
  "noteViolations e st nd =
     (if maxDailyNotes (note_creation st) \<noteq> 0
         \<and> todayNoteCount e st \<ge> maxDailyNotes (note_creation st)
      then [dailyLimitMessage (maxDailyNotes (note_creation st))] else [])
     @ (if \<not> allowEmptyContent (note_creation st) \<and> blankText (map_of nd ''content'')
        then [''Empty content not allowed by business rules''] else [])"

definition tagTooLong :: "string \<Rightarrow> string" where
  "tagTooLong tag = ''Tag '' @ quote @ tag @ quote @ '' too long (max 30 chars)''"

text \<open>Notes just over and exactly at the length limits, a day's quota of stored notes
  (each created on 14 November 2023 and modified on the 15th), and the environment one
  calendar day later.\<close>

definition longNote :: obj where
  "longNote =
     [(''id'', JStr ''n2''),
      (''title'', JStr (replicate 201 CHR ''a'')),
      (''content'', JStr (replicate 50001 CHR ''b'')),
      (''category'', JStr ''personal''),
      (''tags'', JArr (JStr (replicate 31 CHR ''t'') # replicate 10 (JStr ''x''))),
      (''priority'', JStr ''medium'')]"

definition limitNote :: obj where
  "limitNote =
     [(''id'', JStr ''n3''),
      (''title'', JStr (replicate 200 CHR ''a'')),
      (''content'', JStr (replicate 50000 CHR ''b'')),
      (''category'', JStr ''personal''),
      (''tags'', JArr []),
      (''priority'', JStr ''medium'')]"

definition dayOfNotes :: "obj list" where
  "dayOfNotes =
     map (\<lambda>i. set_prop ''id'' (JStr (''n'' @ decimal i))
               (set_prop ''lastModified'' (JStr ''2023-11-15T09:30:00.000Z'') exampleNote))
       [0..<100]"

definition nextDayEnv :: env where
  "nextDayEnv = exampleEnv\<lparr>dateNow := (\<lambda>k. 1700006400000)\<rparr>"

text \<open>What the deletion workflow resolves with when the user declines, the key of the
  deletion backup written by a run that starts in a given state, and a store with one
  note and a user who agrees, for worked examples.\<close>

definition cancelledDeletion :: json where
  "cancelledDeletion = JObj [(''success'', JBool False), (''reason'', JStr ''User cancelled deletion'')]"

definition deletionBackupId :: "env \<Rightarrow> state \<Rightarrow> string \<Rightarrow> string" where
  "deletionBackupId e st noteId =
     ''deletion_backup_'' @ decimal (dateNow e (clockReads st + 1)) @ ''_'' @ noteId"

definition exampleNoteId :: string where
  "exampleNoteId = ''note_1700000000000_a1b2c3d4e''"

definition oneNoteState :: state where
  "oneNoteState = emptyState\<lparr>ls_notes := [exampleNote]\<rparr>"

definition agreeingEnv :: env where
  "agreeingEnv = exampleEnv\<lparr>confirmAnswer := (\<lambda>k. True)\<rparr>"

section \<open>Properties of the error categorisation\<close>

lemma prefix_toLowerCase: "prefix k s \<Longrightarrow> prefix (toLowerCase k) (toLowerCase s)"
  by (auto simp: toLowerCase_def prefix_def)

lemma js_includes_toLowerCase:
  "js_includes s k \<Longrightarrow> js_includes (toLowerCase s) (toLowerCase k)"
proof (induction s)
  case Nil
  then show ?case by (simp add: toLowerCase_def)
next
  case (Cons c cs)
  from Cons.prems have "prefix k (c # cs) \<or> js_includes cs k" by simp
  then show ?case
  proof
    assume "prefix k (c # cs)"
    then have "prefix (toLowerCase k) (toLowerCase (c # cs))" by (rule prefix_toLowerCase)
    then show ?thesis by (simp add: toLowerCase_def)
  next
    assume "js_includes cs k"
    then have "js_includes (toLowerCase cs) (toLowerCase k)" by (rule Cons.IH)
    then show ?thesis by (simp add: toLowerCase_def)
  qed
qed

lemma js_includes_sublist: "js_includes s k \<longleftrightarrow> sublist k s"
  by (induction s) (auto simp: sublist_Cons_right)

lemma lowerOrEmpty_text: "stringOrFalsy v \<Longrightarrow> lowerOrEmpty v = Inr (loweredText v)"
  by (cases v rule: truthy.cases)
     (simp_all add: stringOrFalsy_def lowerOrEmpty_def loweredText_def toLowerCase_def)

lemma categorizeError_object:
  assumes "stringOrFalsy (map_of e ''message'')" and "stringOrFalsy (map_of e ''name'')"
  shows "categorizeError (Some (JObj e)) =
           Inr (firstMatch (keywordTests (loweredText (map_of e ''message''))
                  (loweredText (map_of e ''name'')) (map_of e ''type'')))"
  using assms
  by (simp add: categorizeError_def bindE_def lowerOrEmpty_text keywordTests_def)

lemma network_keyword_lowered:
  "js_includes s ''network'' \<Longrightarrow> js_includes (toLowerCase s) ''network''"
proof -
  assume "js_includes s ''network''"
  then have "js_includes (toLowerCase s) (toLowerCase ''network'')"
    by (rule js_includes_toLowerCase)
  then show ?thesis by (simp add: toLowerCase_def lowerUnit_def)
qed

lemma categorizeError_primitive:
  "get_prop err ''message'' = Inr None \<Longrightarrow> get_prop err ''name'' = Inr None \<Longrightarrow>
     get_prop err ''type'' = Inr None \<Longrightarrow> categorizeError err = Inr ''UNKNOWN''"
  by (simp add: categorizeError_def bindE_def lowerOrEmpty_def toLowerCase_def)

lemma lowerOrEmpty_throws:
  "\<not> stringOrFalsy v \<Longrightarrow> \<exists>what. lowerOrEmpty v = Inl (TypeError what)"
  by (cases v rule: truthy.cases) (simp_all add: stringOrFalsy_def lowerOrEmpty_def)

lemma categorizeError_throws:
  assumes "\<not> stringOrFalsy (map_of e ''message'') \<or> \<not> stringOrFalsy (map_of e ''name'')"
  shows "\<exists>what. categorizeError (Some (JObj e)) = Inl (TypeError what)"
proof (cases "stringOrFalsy (map_of e ''message'')")
  case False
  then obtain what where "lowerOrEmpty (map_of e ''message'') = Inl (TypeError what)"
    using lowerOrEmpty_throws by blast
  then show ?thesis
    by (simp add: categorizeError_def bindE_def)
next
  case True
  with assms have "\<not> stringOrFalsy (map_of e ''name'')" by simp
  then obtain what where "lowerOrEmpty (map_of e ''name'') = Inl (TypeError what)"
    using lowerOrEmpty_throws by blast
  with True show ?thesis
    by (simp add: categorizeError_def bindE_def lowerOrEmpty_text)
qed

lemma categorizeError_nothing:
  "(\<exists>what. categorizeError None = Inl (TypeError what))
   \<and> (\<exists>what. categorizeError (Some JNull) = Inl (TypeError what))"
  by (simp add: categorizeError_def bindE_def)

text \<open>
  C8. For every error object whose \<^verbatim>\<open>message\<close> and \<^verbatim>\<open>name\<close> are strings or falsy (what
  \<^verbatim>\<open>normalizeError\<close> builds from an Error or from a primitive), \<open>categorizeError\<close> returns
  the first category, in the order Network, Storage, Permission, Audio, File, Validation,
  whose keyword test holds, and UNKNOWN when none holds. In particular a message that
  contains both \<^verbatim>\<open>network\<close> and \<^verbatim>\<open>file\<close> is categorised NETWORK and not FILE. An error value
  that is a boolean, a number, a string or an array has none of the three properties and
  is categorised UNKNOWN. For every other value the call throws a TypeError and returns
  no category: an object whose \<^verbatim>\<open>message\<close> or \<^verbatim>\<open>name\<close> is truthy and not a string, undefined,
  and null.
\<close>

theorem categorizeError_first_match:
  assumes "stringOrFalsy (map_of e ''message'')" and "stringOrFalsy (map_of e ''name'')"
  shows "categorizeError (Some (JObj e)) =
           Inr (firstMatch (keywordTests (loweredText (map_of e ''message''))
                  (loweredText (map_of e ''name'')) (map_of e ''type'')))
         \<and> (\<forall>s. map_of e ''message'' = Some (JStr s) \<and> js_includes s ''network'' \<and>
                  js_includes s ''file''
               \<longrightarrow> categorizeError (Some (JObj e)) = Inr ''NETWORK''
                 \<and> categorizeError (Some (JObj e)) \<noteq> Inr ''FILE'')
         \<and> categorizeError (Some (JBool b)) = Inr ''UNKNOWN''
         \<and> categorizeError (Some (JNum k)) = Inr ''UNKNOWN''
         \<and> categorizeError (Some (JStr txt)) = Inr ''UNKNOWN''
         \<and> categorizeError (Some (JArr xs)) = Inr ''UNKNOWN''
         \<and> (\<not> stringOrFalsy (map_of other ''message'') \<or> \<not> stringOrFalsy (map_of other ''name'')
               \<longrightarrow> (\<exists>what. categorizeError (Some (JObj other)) = Inl (TypeError what)))
         \<and> (\<exists>what. categorizeError None = Inl (TypeError what))
         \<and> (\<exists>what. categorizeError (Some JNull) = Inl (TypeError what))"
proof (intro conjI allI impI)
  show "categorizeError (Some (JObj e)) =
           Inr (firstMatch (keywordTests (loweredText (map_of e ''message''))
                  (loweredText (map_of e ''name'')) (map_of e ''type'')))"
    using assms by (rule categorizeError_object)
next
  fix s
  assume h: "map_of e ''message'' = Some (JStr s) \<and> js_includes s ''network'' \<and>
             js_includes s ''file''"
  then have low: "js_includes (toLowerCase s) ''network''"
    by (simp add: network_keyword_lowered)
  have "categorizeError (Some (JObj e)) =
           Inr (firstMatch (keywordTests (loweredText (map_of e ''message''))
                  (loweredText (map_of e ''name'')) (map_of e ''type'')))"
    using assms by (rule categorizeError_object)
  with h low show net: "categorizeError (Some (JObj e)) = Inr ''NETWORK''"
    by (simp add: keywordTests_def loweredText_def)
  then show "categorizeError (Some (JObj e)) \<noteq> Inr ''FILE''" by simp
next
  show "categorizeError (Some (JBool b)) = Inr ''UNKNOWN''"
    by (rule categorizeError_primitive) simp_all
  show "categorizeError (Some (JNum k)) = Inr ''UNKNOWN''"
    by (rule categorizeError_primitive) simp_all
  show "categorizeError (Some (JStr txt)) = Inr ''UNKNOWN''"
    by (rule categorizeError_primitive) simp_all
  show "categorizeError (Some (JArr xs)) = Inr ''UNKNOWN''"
    by (rule categorizeError_primitive) simp_all
  show "\<exists>what. categorizeError (Some (JObj other)) = Inl (TypeError what)"
    if "\<not> stringOrFalsy (map_of other ''message'') \<or> \<not> stringOrFalsy (map_of other ''name'')"
    using that by (rule categorizeError_throws)
  show "\<exists>what. categorizeError None = Inl (TypeError what)"
    using categorizeError_nothing by (rule conjunct1)
  show "\<exists>what. categorizeError (Some JNull) = Inl (TypeError what)"
    using categorizeError_nothing by (rule conjunct2)
qed

theorem categorizeError_first_match_witness:
  "categorizeError (Some (JObj [(''message'', JStr ''Lost the network file share''),
                               (''name'', JStr ''Error'')])) = Inr ''NETWORK''"
proof -
  let ?e = "[(''message'', JStr ''Lost the network file share''), (''name'', JStr ''Error'')]"
  have m: "stringOrFalsy (map_of ?e ''message'')" by (simp add: stringOrFalsy_def)
  have n: "stringOrFalsy (map_of ?e ''name'')" by (simp add: stringOrFalsy_def)
  have s: "map_of ?e ''message'' = Some (JStr ''Lost the network file share'') \<and>
           js_includes ''Lost the network file share'' ''network'' \<and>
           js_includes ''Lost the network file share'' ''file''"
    by simp
  from categorizeError_first_match [OF m n] s show ?thesis by blast
qed

text \<open>
  C8. The specification states the precedence for every error value. Outside the values
  above the function does not return a category: reading \<^verbatim>\<open>message\<close> of undefined or null
  throws (the handler of unhandled rejections passes \<^verbatim>\<open>event.reason\<close> as it is, and a
  promise can be rejected without a reason), and a truthy \<^verbatim>\<open>message\<close> that is not a string
  has no \<^verbatim>\<open>toLowerCase\<close>.
\<close>

theorem categorizeError_throws_without_text:
  "categorizeError None = Inl (TypeError ''Cannot read properties of undefined: message'')
   \<and> categorizeError (Some JNull) = Inl (TypeError ''Cannot read properties of null: message'')
   \<and> categorizeError (Some (JObj [(''message'', JNum 404)])) =
       Inl (TypeError ''toLowerCase is not a function'')"
  by (simp add: categorizeError_def bindE_def lowerOrEmpty_def)

section \<open>Properties of the import path\<close>

lemma importedNote_run:
  "importedNote e note st =
     (Inr (freshNote e note (clockReads st) (randomDraws st)),
      st\<lparr>clockReads := clockReads st + 3, randomDraws := Suc (randomDraws st)\<rparr>)"
  by (simp add: importedNote_def generateNoteId_def newISOString_def readClock_def bindS_def
        ret_def freshNote_def)

lemma importStep_run:
  "importStep e note (existing, r) st =
     (Inr (existing @ [freshNote e note (clockReads st) (randomDraws st)],
           r\<lparr>imported := imported r + 1\<rparr>),
      st\<lparr>clockReads := clockReads st + 3, randomDraws := Suc (randomDraws st)\<rparr>)"
  by (simp add: importStep_def tryCatch_def bindS_def ret_def importedNote_run)

lemma importLoop_run:
  "importLoop e incoming (existing, r) st =
     (Inr (existing @ freshNotes e incoming (clockReads st) (randomDraws st),
           r\<lparr>imported := imported r + length incoming\<rparr>),
      st\<lparr>clockReads := clockReads st + 3 * length incoming,
         randomDraws := randomDraws st + length incoming\<rparr>)"
proof (induction incoming arbitrary: existing r st)
  case Nil
  then show ?case by simp
next
  case (Cons x rest)
  show ?case
    by (simp add: importStep_run Cons.IH)
qed

lemma length_freshNotes: "length (freshNotes e incoming c r) = length incoming"
  by (induction incoming arbitrary: c r) simp_all

lemma nth_freshNotes:
  "i < length incoming \<Longrightarrow>
     freshNotes e incoming c r ! i = freshNote e (incoming ! i) (c + 3 * i) (r + i)"
proof (induction incoming arbitrary: c r i)
  case Nil
  then show ?case by simp
next
  case (Cons x rest)
  show ?case
  proof (cases i)
    case 0
    then show ?thesis by simp
  next
    case (Suc j)
    with Cons.prems have "j < length rest" by simp
    then have "freshNotes e rest (c + 3) (Suc r) ! j = freshNote e (rest ! j) (c + 3 + 3 * j) (Suc r + j)"
      by (rule Cons.IH)
    with Suc show ?thesis by (simp add: add.assoc)
  qed
qed

lemma performDataImport_run:
  assumes "map_of kvs ''notes'' = Some (JArr incoming)"
  shows "performDataImport e (JObj kvs) st =
     (Inr \<lparr>imported = length incoming, skipped = 0, import_errors = []\<rparr>,
      st\<lparr>clockReads := clockReads st + 3 * length incoming,
         randomDraws := randomDraws st + length incoming,
         ls_notes := ls_notes st @ freshNotes e incoming (clockReads st) (randomDraws st)\<rparr>)"
  using assms
  by (simp add: performDataImport_def importLoop_run bindS_def modify_def ret_def)

lemma exportData_json_run:
  "\<exists>doc. exportData e notes ''json'' st =
      (Inr (JsonText (JObj doc)), st\<lparr>clockReads := Suc (clockReads st)\<rparr>)
    \<and> map_of doc ''notes'' = Some (JArr (map JObj notes))"
  by (simp add: exportData_def toLowerCase_def lowerUnit_def newISOString_def readClock_def
        bindS_def ret_def)

lemma exportThenImport_run:
  "exportThenImport e notes st =
     (Inr \<lparr>imported = length notes, skipped = 0, import_errors = []\<rparr>,
      st\<lparr>clockReads := Suc (clockReads st) + 3 * length notes,
         randomDraws := randomDraws st + length notes,
         ls_notes := ls_notes st @ freshNotes e (map JObj notes) (Suc (clockReads st)) (randomDraws st)\<rparr>)"
proof -
  obtain doc where run: "exportData e notes ''json'' st =
      (Inr (JsonText (JObj doc)), st\<lparr>clockReads := Suc (clockReads st)\<rparr>)"
    and doc: "map_of doc ''notes'' = Some (JArr (map JObj notes))"
    using exportData_json_run by blast
  show ?thesis
    by (simp add: exportThenImport_def bindS_def run parseExported_def
          performDataImport_run [OF doc])
qed

lemma map_of_set_prop:
  "map_of (set_prop k v ob) k' = (if k' = k then Some v else map_of ob k')"
  by (simp add: set_prop_def update_conv')

lemma freshNote_keeps:
  "k \<noteq> ''id'' \<Longrightarrow> k \<noteq> ''createdAt'' \<Longrightarrow> k \<noteq> ''lastModified'' \<Longrightarrow>
     map_of (freshNote e x c r) k = map_of (spread (Some x)) k"
  by (simp add: freshNote_def map_of_set_prop)

lemma freshNote_id:
  "map_of (freshNote e x c r) ''id'' =
     Some (JStr (''note_'' @ decimal (dateNow e c) @ ''_'' @ mathRandom e r))"
  by (simp add: freshNote_def map_of_set_prop)

lemma freshNote_createdAt:
  "map_of (freshNote e x c r) ''createdAt'' = Some (JStr (toISOString e (dateNow e (c + 1))))"
  by (simp add: freshNote_def map_of_set_prop)

lemma freshNote_lastModified:
  "map_of (freshNote e x c r) ''lastModified'' = Some (JStr (toISOString e (dateNow e (c + 2))))"
  by (simp add: freshNote_def map_of_set_prop)

text \<open>
  C1. Exporting any list of note records to JSON, parsing the text and
  importing the parsed object appends exactly as many notes as were exported; each
  appended note has the \<^verbatim>\<open>title\<close>, \<^verbatim>\<open>content\<close>, \<^verbatim>\<open>category\<close>, \<^verbatim>\<open>tags\<close> and \<^verbatim>\<open>priority\<close> of
  the original at the same position, and its \<^verbatim>\<open>id\<close>, \<^verbatim>\<open>createdAt\<close> and \<^verbatim>\<open>lastModified\<close> are
  the values generated during the import (a new \<open>generateNoteId\<close> result and the two
  clock readings that follow it), whatever the original held.
\<close>

theorem export_import_round_trip:
  "\<exists>appended.
     fst (exportThenImport e notes st) = Inr \<lparr>imported = length notes, skipped = 0, import_errors = []\<rparr>
   \<and> ls_notes (snd (exportThenImport e notes st)) = ls_notes st @ appended
   \<and> length appended = length notes
   \<and> (\<forall>i < length notes.
         map_of (appended ! i) ''title'' = map_of (notes ! i) ''title''
       \<and> map_of (appended ! i) ''content'' = map_of (notes ! i) ''content''
       \<and> map_of (appended ! i) ''category'' = map_of (notes ! i) ''category''
       \<and> map_of (appended ! i) ''tags'' = map_of (notes ! i) ''tags''
       \<and> map_of (appended ! i) ''priority'' = map_of (notes ! i) ''priority''
       \<and> map_of (appended ! i) ''id'' =
            Some (JStr (''note_'' @ decimal (dateNow e (clockReads st + 1 + 3 * i)) @ ''_'' @
                        mathRandom e (randomDraws st + i)))
       \<and> map_of (appended ! i) ''createdAt'' =
            Some (JStr (toISOString e (dateNow e (clockReads st + 2 + 3 * i))))
       \<and> map_of (appended ! i) ''lastModified'' =
            Some (JStr (toISOString e (dateNow e (clockReads st + 3 + 3 * i)))))"
proof (intro exI conjI allI impI)
  let ?app = "freshNotes e (map JObj notes) (Suc (clockReads st)) (randomDraws st)"
  show "fst (exportThenImport e notes st) = Inr \<lparr>imported = length notes, skipped = 0, import_errors = []\<rparr>"
    by (simp add: exportThenImport_run)
  show "ls_notes (snd (exportThenImport e notes st)) = ls_notes st @ ?app"
    by (simp add: exportThenImport_run)
  show "length ?app = length notes"
    by (simp add: length_freshNotes)
  fix i assume i: "i < length notes"
  then have nth: "?app ! i = freshNote e (JObj (notes ! i)) (Suc (clockReads st) + 3 * i) (randomDraws st + i)"
    by (simp add: nth_freshNotes)
  show "map_of (?app ! i) ''title'' = map_of (notes ! i) ''title''"
    by (simp add: nth freshNote_keeps)
  show "map_of (?app ! i) ''content'' = map_of (notes ! i) ''content''"
    by (simp add: nth freshNote_keeps)
  show "map_of (?app ! i) ''category'' = map_of (notes ! i) ''category''"
    by (simp add: nth freshNote_keeps)
  show "map_of (?app ! i) ''tags'' = map_of (notes ! i) ''tags''"
    by (simp add: nth freshNote_keeps)
  show "map_of (?app ! i) ''priority'' = map_of (notes ! i) ''priority''"
    by (simp add: nth freshNote_keeps)
  show "map_of (?app ! i) ''id'' =
            Some (JStr (''note_'' @ decimal (dateNow e (clockReads st + 1 + 3 * i)) @ ''_'' @
                        mathRandom e (randomDraws st + i)))"
    by (simp add: nth freshNote_id)
  have "Suc (clockReads st) + 3 * i + 1 = clockReads st + 2 + 3 * i" by simp
  then show "map_of (?app ! i) ''createdAt'' =
            Some (JStr (toISOString e (dateNow e (clockReads st + 2 + 3 * i))))"
    by (simp only: nth freshNote_createdAt)
  have "Suc (clockReads st) + 3 * i + 2 = clockReads st + 3 + 3 * i" by simp
  then show "map_of (?app ! i) ''lastModified'' =
            Some (JStr (toISOString e (dateNow e (clockReads st + 3 + 3 * i))))"
    by (simp only: nth freshNote_lastModified)
qed

lemma exampleEnv_dateNow: "dateNow exampleEnv k = 1700000000000"
  by (simp add: exampleEnv_def)

lemma exampleEnv_mathRandom: "mathRandom exampleEnv k = ''k3j9x2m1q''"
  by (simp add: exampleEnv_def)

lemma decimal_example_clock: "decimal 1700000000000 = ''1700000000000''"
  by (simp add: decimal.simps digit_def)

lemma exampleEnv_iso: "toISOString exampleEnv (dateNow exampleEnv k) = ''2023-11-14T22:13:20.000Z''"
  by (simp add: exampleEnv_def decimal.simps digit_def)

text \<open>
  C1. The specification adds that the regenerated values differ from the originals.
  Nothing in the code compares them: a note created in the millisecond in which it is
  exported and imported again keeps its \<^verbatim>\<open>createdAt\<close> and \<^verbatim>\<open>lastModified\<close>.
\<close>

theorem round_trip_createdAt_can_coincide:
  "map_of (last (ls_notes (snd (exportThenImport exampleEnv [exampleNote] emptyState)))) ''createdAt''
     = map_of exampleNote ''createdAt''
   \<and> map_of (last (ls_notes (snd (exportThenImport exampleEnv [exampleNote] emptyState)))) ''lastModified''
     = map_of exampleNote ''lastModified''"
  by (simp add: exportThenImport_run freshNote_createdAt freshNote_lastModified exampleEnv_iso)
     (simp add: exampleNote_def)

theorem export_import_round_trip_witness:
  "fst (exportThenImport exampleEnv [exampleNote] emptyState) =
     Inr \<lparr>imported = 1, skipped = 0, import_errors = []\<rparr>
   \<and> map_of (last (ls_notes (snd (exportThenImport exampleEnv [exampleNote] emptyState)))) ''title''
       = Some (JStr ''Groceries'')
   \<and> map_of (last (ls_notes (snd (exportThenImport exampleEnv [exampleNote] emptyState)))) ''id''
       = Some (JStr ''note_1700000000000_k3j9x2m1q'')"
proof -
  obtain appended where
    r: "fst (exportThenImport exampleEnv [exampleNote] emptyState) =
          Inr \<lparr>imported = length [exampleNote], skipped = 0, import_errors = []\<rparr>"
    and n: "ls_notes (snd (exportThenImport exampleEnv [exampleNote] emptyState)) =
          ls_notes emptyState @ appended"
    and l: "length appended = length [exampleNote]"
    and f: "\<forall>i < length [exampleNote].
         map_of (appended ! i) ''title'' = map_of ([exampleNote] ! i) ''title''
       \<and> map_of (appended ! i) ''content'' = map_of ([exampleNote] ! i) ''content''
       \<and> map_of (appended ! i) ''category'' = map_of ([exampleNote] ! i) ''category''
       \<and> map_of (appended ! i) ''tags'' = map_of ([exampleNote] ! i) ''tags''
       \<and> map_of (appended ! i) ''priority'' = map_of ([exampleNote] ! i) ''priority''
       \<and> map_of (appended ! i) ''id'' =
            Some (JStr (''note_'' @ decimal (dateNow exampleEnv (clockReads emptyState + 1 + 3 * i)) @ ''_'' @
                        mathRandom exampleEnv (randomDraws emptyState + i)))
       \<and> map_of (appended ! i) ''createdAt'' =
            Some (JStr (toISOString exampleEnv (dateNow exampleEnv (clockReads emptyState + 2 + 3 * i))))
       \<and> map_of (appended ! i) ''lastModified'' =
            Some (JStr (toISOString exampleEnv (dateNow exampleEnv (clockReads emptyState + 3 + 3 * i))))"
    using export_import_round_trip [of exampleEnv "[exampleNote]" emptyState] by blast
  from l obtain x where x: "appended = [x]"
    by (cases appended) simp_all
  from f x have t: "map_of x ''title'' = map_of exampleNote ''title''"
    and i: "map_of x ''id'' = Some (JStr (''note_'' @ decimal (dateNow exampleEnv (clockReads emptyState + 1)) @ ''_'' @
                        mathRandom exampleEnv (randomDraws emptyState)))"
    by simp_all
  have last: "last (ls_notes (snd (exportThenImport exampleEnv [exampleNote] emptyState))) = x"
    using n x by simp
  show ?thesis
    unfolding last using r t i
    by (simp add: exampleNote_def exampleEnv_dateNow exampleEnv_mathRandom
          decimal_example_clock)
qed

lemma freshNote_object:
  "k \<noteq> ''id'' \<Longrightarrow> k \<noteq> ''createdAt'' \<Longrightarrow> k \<noteq> ''lastModified'' \<Longrightarrow>
     map_of (freshNote e (JObj kvs) c r) k = map_of kvs k"
  by (simp add: freshNote_def map_of_set_prop)

lemma freshNote_null:
  "k \<noteq> ''id'' \<Longrightarrow> k \<noteq> ''createdAt'' \<Longrightarrow> k \<noteq> ''lastModified'' \<Longrightarrow>
     map_of (freshNote e JNull c r) k = None"
  by (simp add: freshNote_def map_of_set_prop)

lemma freshNote_bool:
  "k \<noteq> ''id'' \<Longrightarrow> k \<noteq> ''createdAt'' \<Longrightarrow> k \<noteq> ''lastModified'' \<Longrightarrow>
     map_of (freshNote e (JBool b) c r) k = None"
  by (simp add: freshNote_def map_of_set_prop)

lemma freshNote_num:
  "k \<noteq> ''id'' \<Longrightarrow> k \<noteq> ''createdAt'' \<Longrightarrow> k \<noteq> ''lastModified'' \<Longrightarrow>
     map_of (freshNote e (JNum x) c r) k = None"
  by (simp add: freshNote_def map_of_set_prop)

text \<open>
  C10. For every input object whose \<^verbatim>\<open>notes\<close> is an array, \<open>performDataImport\<close> returns
  \<^verbatim>\<open>imported\<close> equal to the length of the array, \<^verbatim>\<open>skipped\<close> = 0 and no errors: the handler
  of the loop is never entered, and one note per incoming element, whatever its shape,
  is appended to the stored collection behind the notes already there. The appended note
  carries the generated \<^verbatim>\<open>id\<close>, \<^verbatim>\<open>createdAt\<close> and \<^verbatim>\<open>lastModified\<close>; an incoming record (an
  object with any properties of any values) hands every other property to its note
  unchanged and adds none, and an element that is null, a boolean or a number yields a
  note with the three generated properties only.
\<close>

theorem performDataImport_appends_every_note:
  assumes "map_of dat ''notes'' = Some (JArr incoming)"
  shows "\<exists>appended.
     fst (performDataImport e (JObj dat) st) =
       Inr \<lparr>imported = length incoming, skipped = 0, import_errors = []\<rparr>
   \<and> ls_notes (snd (performDataImport e (JObj dat) st)) = ls_notes st @ appended
   \<and> length appended = length incoming
   \<and> (\<forall>i < length incoming.
         map_of (appended ! i) ''id'' =
            Some (JStr (''note_'' @ decimal (dateNow e (clockReads st + 3 * i)) @ ''_'' @
                        mathRandom e (randomDraws st + i)))
       \<and> map_of (appended ! i) ''createdAt'' =
            Some (JStr (toISOString e (dateNow e (clockReads st + 3 * i + 1))))
       \<and> map_of (appended ! i) ''lastModified'' =
            Some (JStr (toISOString e (dateNow e (clockReads st + 3 * i + 2))))
       \<and> (\<forall>k. k \<noteq> ''id'' \<and> k \<noteq> ''createdAt'' \<and> k \<noteq> ''lastModified'' \<longrightarrow>
             (\<forall>kvs. incoming ! i = JObj kvs \<longrightarrow> map_of (appended ! i) k = map_of kvs k)
           \<and> (incoming ! i = JNull \<longrightarrow> map_of (appended ! i) k = None)
           \<and> (\<forall>b. incoming ! i = JBool b \<longrightarrow> map_of (appended ! i) k = None)
           \<and> (\<forall>x. incoming ! i = JNum x \<longrightarrow> map_of (appended ! i) k = None)))"
proof (intro exI conjI allI impI)
  let ?app = "freshNotes e incoming (clockReads st) (randomDraws st)"
  show "fst (performDataImport e (JObj dat) st) =
       Inr \<lparr>imported = length incoming, skipped = 0, import_errors = []\<rparr>"
    by (simp add: performDataImport_run [OF assms])
  show "ls_notes (snd (performDataImport e (JObj dat) st)) = ls_notes st @ ?app"
    by (simp add: performDataImport_run [OF assms])
  show "length ?app = length incoming"
    by (simp add: length_freshNotes)
next
  let ?app = "freshNotes e incoming (clockReads st) (randomDraws st)"
  fix i assume i: "i < length incoming"
  then have nth: "?app ! i = freshNote e (incoming ! i) (clockReads st + 3 * i) (randomDraws st + i)"
    by (rule nth_freshNotes)
  show "map_of (?app ! i) ''id'' =
            Some (JStr (''note_'' @ decimal (dateNow e (clockReads st + 3 * i)) @ ''_'' @
                        mathRandom e (randomDraws st + i)))"
    by (simp only: nth freshNote_id)
  show "map_of (?app ! i) ''createdAt'' =
            Some (JStr (toISOString e (dateNow e (clockReads st + 3 * i + 1))))"
    by (simp only: nth freshNote_createdAt)
  show "map_of (?app ! i) ''lastModified'' =
            Some (JStr (toISOString e (dateNow e (clockReads st + 3 * i + 2))))"
    by (simp only: nth freshNote_lastModified)
  fix k assume "k \<noteq> ''id'' \<and> k \<noteq> ''createdAt'' \<and> k \<noteq> ''lastModified''"
  then have k: "k \<noteq> ''id''" "k \<noteq> ''createdAt''" "k \<noteq> ''lastModified''"
    by simp_all
  show "map_of (?app ! i) k = map_of kvs k" if "incoming ! i = JObj kvs" for kvs
    using that by (simp only: nth freshNote_object [OF k])
  show "map_of (?app ! i) k = None" if "incoming ! i = JNull"
    using that by (simp only: nth freshNote_null [OF k])
  show "map_of (?app ! i) k = None" if "incoming ! i = JBool b" for b
    using that by (simp only: nth freshNote_bool [OF k])
  show "map_of (?app ! i) k = None" if "incoming ! i = JNum x" for x
    using that by (simp only: nth freshNote_num [OF k])
qed

text \<open>
  C10. A run on four elements of four shapes: all four are counted, and the record among them,
  whose \<^verbatim>\<open>title\<close> is a boolean and whose \<^verbatim>\<open>id\<close> is a number, is stored with that title and
  with a generated id.
\<close>

theorem performDataImport_appends_every_note_witness:
  "fst (performDataImport exampleEnv
          (JObj [(''notes'', JArr [JNull, JNum 7, JStr ''ab'',
                                  JObj [(''title'', JBool True), (''id'', JNum 5)]])])
          emptyState) = Inr \<lparr>imported = 4, skipped = 0, import_errors = []\<rparr>
   \<and> length (ls_notes (snd (performDataImport exampleEnv
          (JObj [(''notes'', JArr [JNull, JNum 7, JStr ''ab'',
                                  JObj [(''title'', JBool True), (''id'', JNum 5)]])])
          emptyState))) = 4
   \<and> map_of (ls_notes (snd (performDataImport exampleEnv
          (JObj [(''notes'', JArr [JNull, JNum 7, JStr ''ab'',
                                  JObj [(''title'', JBool True), (''id'', JNum 5)]])])
          emptyState)) ! 3) ''title'' = Some (JBool True)
   \<and> map_of (ls_notes (snd (performDataImport exampleEnv
          (JObj [(''notes'', JArr [JNull, JNum 7, JStr ''ab'',
                                  JObj [(''title'', JBool True), (''id'', JNum 5)]])])
          emptyState)) ! 3) ''id'' = Some (JStr ''note_1700000000000_k3j9x2m1q'')
   \<and> map_of (ls_notes (snd (performDataImport exampleEnv
          (JObj [(''notes'', JArr [JNull, JNum 7, JStr ''ab'',
                                  JObj [(''title'', JBool True), (''id'', JNum 5)]])])
          emptyState)) ! 0) ''title'' = None"
proof -
  let ?incoming = "[JNull, JNum 7, JStr ''ab'', JObj [(''title'', JBool True), (''id'', JNum 5)]]"
  let ?dat = "[(''notes'', JArr ?incoming)]"
  let ?run = "performDataImport exampleEnv (JObj ?dat) emptyState"
  have h: "map_of ?dat ''notes'' = Some (JArr ?incoming)"
    by simp
  have stored: "ls_notes emptyState = []"
    by (simp add: emptyState_def)
  have title: "''title'' \<noteq> ''id'' \<and> ''title'' \<noteq> ''createdAt'' \<and> ''title'' \<noteq> ''lastModified''"
    by simp
  from performDataImport_appends_every_note [OF h, of exampleEnv emptyState]
  obtain appended where
    r: "fst ?run = Inr \<lparr>imported = length ?incoming, skipped = 0, import_errors = []\<rparr>"
    and n: "ls_notes (snd ?run) = ls_notes emptyState @ appended"
    and l: "length appended = length ?incoming"
    and f: "\<forall>i < length ?incoming.
         map_of (appended ! i) ''id'' =
            Some (JStr (''note_'' @ decimal (dateNow exampleEnv (clockReads emptyState + 3 * i)) @ ''_'' @
                        mathRandom exampleEnv (randomDraws emptyState + i)))
       \<and> map_of (appended ! i) ''createdAt'' =
            Some (JStr (toISOString exampleEnv (dateNow exampleEnv (clockReads emptyState + 3 * i + 1))))
       \<and> map_of (appended ! i) ''lastModified'' =
            Some (JStr (toISOString exampleEnv (dateNow exampleEnv (clockReads emptyState + 3 * i + 2))))
       \<and> (\<forall>k. k \<noteq> ''id'' \<and> k \<noteq> ''createdAt'' \<and> k \<noteq> ''lastModified'' \<longrightarrow>
             (\<forall>kvs. ?incoming ! i = JObj kvs \<longrightarrow> map_of (appended ! i) k = map_of kvs k)
           \<and> (?incoming ! i = JNull \<longrightarrow> map_of (appended ! i) k = None)
           \<and> (\<forall>b. ?incoming ! i = JBool b \<longrightarrow> map_of (appended ! i) k = None)
           \<and> (\<forall>x. ?incoming ! i = JNum x \<longrightarrow> map_of (appended ! i) k = None))"
    by (elim exE conjE) (rule that)
  from n stored have appendedNotes: "ls_notes (snd ?run) = appended"
    by simp
  have three: "(3::nat) < length ?incoming" and zero: "(0::nat) < length ?incoming"
    by simp_all
  note at3 = f [THEN spec, THEN mp, OF three]
  note at0 = f [THEN spec, THEN mp, OF zero]
  from at3 have id3: "map_of (appended ! 3) ''id'' =
            Some (JStr (''note_'' @ decimal (dateNow exampleEnv (clockReads emptyState + 3 * 3)) @ ''_'' @
                        mathRandom exampleEnv (randomDraws emptyState + 3)))"
    by (rule conjunct1)
  from at3 have "\<forall>k. k \<noteq> ''id'' \<and> k \<noteq> ''createdAt'' \<and> k \<noteq> ''lastModified'' \<longrightarrow>
             (\<forall>kvs. ?incoming ! 3 = JObj kvs \<longrightarrow> map_of (appended ! 3) k = map_of kvs k)
           \<and> (?incoming ! 3 = JNull \<longrightarrow> map_of (appended ! 3) k = None)
           \<and> (\<forall>b. ?incoming ! 3 = JBool b \<longrightarrow> map_of (appended ! 3) k = None)
           \<and> (\<forall>x. ?incoming ! 3 = JNum x \<longrightarrow> map_of (appended ! 3) k = None)"
    by (elim conjE)
  from this [THEN spec, THEN mp, OF title]
  have title3: "map_of (appended ! 3) ''title'' = Some (JBool True)"
    by simp
  from at0 have "\<forall>k. k \<noteq> ''id'' \<and> k \<noteq> ''createdAt'' \<and> k \<noteq> ''lastModified'' \<longrightarrow>
             (\<forall>kvs. ?incoming ! 0 = JObj kvs \<longrightarrow> map_of (appended ! 0) k = map_of kvs k)
           \<and> (?incoming ! 0 = JNull \<longrightarrow> map_of (appended ! 0) k = None)
           \<and> (\<forall>b. ?incoming ! 0 = JBool b \<longrightarrow> map_of (appended ! 0) k = None)
           \<and> (\<forall>x. ?incoming ! 0 = JNum x \<longrightarrow> map_of (appended ! 0) k = None)"
    by (elim conjE)
  from this [THEN spec, THEN mp, OF title]
  have title0: "map_of (appended ! 0) ''title'' = None"
    by simp
  show ?thesis
    unfolding appendedNotes using r l id3 title3 title0
    by (simp add: exampleEnv_dateNow exampleEnv_mathRandom decimal_example_clock)
qed

section \<open>Properties of the import workflow\<close>

lemma validateImportData_isValid:
  "validateImportData dat = Inr v \<Longrightarrow> fst v"
  by (auto simp: validateImportData_def bindE_def Let_def
           split: sum.splits option.splits json.splits if_splits)

lemma import_warning_confirmation_unreachable:
  "validateImportData dat = Inr dataValidation \<Longrightarrow>
     (if \<not> fst dataValidation then confirm e d else ret True) = ret True"
  by (simp add: validateImportData_isValid)

lemma decimal_digit: "n < 10 \<Longrightarrow> decimal n = [digit n]"
  by (simp add: decimal.simps)

lemma missing_title_validation:
  "validateImportData (JObj [(''notes'', JArr [JObj [(''content'', JStr ''Buy milk'')]])]) =
     Inr (True, [''Note 1 missing title''])"
  by (simp add: validateImportData_def bindE_def decimal_digit digit_def)

lemmas action_defs = bindS_def ret_def throw_def tryCatch_def modify_def readClock_def
  newISOString_def generateNoteId_def confirm_def toast_def updateDashboardStats_def
  beginWorkflow_def pushStep_def completeWorkflow_def

text \<open>
  C9. The specification has the user confirm ("import anyway") whenever a parsed note
  lacks a title or a content. \<open>validateImportData\<close> collects the warnings but never clears
  \<^verbatim>\<open>isValid\<close> (lemma \<open>validateImportData_isValid\<close>), so the branch of the workflow that
  shows that dialog is never taken (lemma \<open>import_warning_confirmation_unreachable\<close>). For
  an upload whose only note has no title, the one dialog shown is the import preview, and
  declining it ends the workflow with \<^verbatim>\<open>User cancelled after preview\<close>.
\<close>

theorem missing_title_import_run:
  "fst (startImportWorkflow exampleEnv missingTitleUpload emptyState) =
     Inr (JObj [(''success'', JBool False), (''reason'', JStr ''User cancelled after preview'')])
   \<and> map dlg_title (dialogs (snd (startImportWorkflow exampleEnv missingTitleUpload emptyState))) =
       [''Confirm Import'']"
  by (simp add: startImportWorkflow_def missingTitleUpload_def emptyState_def action_defs
        validateImportFile_def parseImportFile_def missing_title_validation
        showImportPreview_def exampleEnv_def Let_def)

section \<open>Properties of the CSV export\<close>

lemma csvHeaders_line: "js_join '','' csvHeaders = csvHeaderLine"
  by (simp add: csvHeaders_def csvHeaderLine_def)

lemma exportToCSV_header:
  "exportToCSV notes = Inr csv \<Longrightarrow> \<exists>rows. csv = csvHeaderLine @ newline @ rows"
  by (auto simp: exportToCSV_def bindE_def csvHeaders_line split: sum.splits)

lemma csvHeaderLine_no_newline: "CHR 0x0A \<notin> set csvHeaderLine"
  by (simp add: csvHeaderLine_def)

lemma exportToCSV_first_line:
  assumes "exportToCSV notes = Inr csv"
  shows "takeWhile (\<lambda>c. c \<noteq> CHR 0x0A) csv = csvHeaderLine"
proof -
  from assms obtain rows where "csv = csvHeaderLine @ newline @ rows"
    using exportToCSV_header by blast
  then show ?thesis
    using csvHeaderLine_no_newline
    by (simp add: newline_def takeWhile_append)
qed

lemma csvCells_title_content:
  assumes "map_of n ''title'' = Some (JStr t)" and "map_of n ''content'' = Some (JStr c)"
    and "csvCells n = Inr cells"
  shows "cells ! 1 = quote @ doubleQuotes t @ quote \<and> cells ! 2 = quote @ doubleQuotes c @ quote"
  using assms
  by (cases "t = []"; cases "c = []")
     (auto simp: csvCells_def bindE_def escapedText_def orElse_def doubleQuotes_def
           split: sum.splits)

lemma doubleQuotes_example:
  "doubleQuotes (''He said '' @ quote @ ''hi'' @ quote) = ''He said '' @ quote @ quote @ ''hi'' @ quote @ quote"
  by (simp add: doubleQuotes_def quote_def)

text \<open>
  C7. The first line of the CSV is the fixed header, the title and content cells are
  quoted with their quotation marks doubled (the lemmas above), and tags are joined with
  \<^verbatim>\<open>; \<close> (the row below). The specification wants every text cell escaped; the cells
  for id, category, priority, tags and dates are quoted but never escaped: a tag with a
  quotation mark is written as it is.
\<close>

theorem exportToCSV_tags_not_escaped:
  "exportToCSV [quotedTagNote] =
     Inr (csvHeaderLine @ newline @
          quote @ ''n1'' @ quote @ '','' @
          quote @ ''Quote'' @ quote @ '','' @
          quote @ ''He said '' @ quote @ quote @ ''hi'' @ quote @ quote @ quote @ '','' @
          quote @ ''personal'' @ quote @ '','' @
          quote @ ''low'' @ quote @ '','' @
          quote @ ''say '' @ quote @ ''hi'' @ quote @ ''; talk'' @ quote @ '','' @
          ''No,No,'' @
          quote @ ''2023-11-14T22:13:20.000Z'' @ quote @ '','' @
          quote @ ''2023-11-14T22:13:20.000Z'' @ quote @ '','' @
          ''12'' @ newline)"
  by (simp add: exportToCSV_def bindE_def csvHeaders_line csvCells_def quotedTagNote_def
        escapedText_def orElse_def doubleQuotes_def joinedOrEmpty_def joinElement_def
        quote_def newline_def decimal.simps digit_def)

section \<open>Properties of the edit diff\<close>

lemma calculateNoteChanges_empty_iff:
  "calculateNoteChanges original updated = [] \<longleftrightarrow>
     strict_eq (map_of original ''title'') (map_of updated ''title'')
   \<and> strict_eq (map_of original ''content'') (map_of updated ''content'')
   \<and> strict_eq (map_of original ''category'') (map_of updated ''category'')
   \<and> map_of original ''tags'' = map_of updated ''tags''
   \<and> strict_eq (map_of original ''priority'') (map_of updated ''priority'')
   \<and> truthy (map_of original ''audio'') = truthy (map_of updated ''audio'')"
  by (auto simp: calculateNoteChanges_def)

text \<open>
  C6. For two note records that agree on content, category, tags (equal JSON texts),
  priority and audio presence, \<open>calculateNoteChanges\<close> returns the empty list when the
  titles agree as well, and otherwise exactly one element: the change of the field
  \<^verbatim>\<open>title\<close> from the original title to the updated one.
\<close>

theorem calculateNoteChanges_title_only:
  assumes "strict_eq (map_of original ''content'') (map_of updated ''content'')"
    and "strict_eq (map_of original ''category'') (map_of updated ''category'')"
    and "map_of original ''tags'' = map_of updated ''tags''"
    and "strict_eq (map_of original ''priority'') (map_of updated ''priority'')"
    and "truthy (map_of original ''audio'') = truthy (map_of updated ''audio'')"
  shows "calculateNoteChanges original updated =
           (if strict_eq (map_of original ''title'') (map_of updated ''title'') then []
            else [\<lparr>field = ''title'', change_from = map_of original ''title'',
                   change_to = map_of updated ''title''\<rparr>])"
  using assms by (simp add: calculateNoteChanges_def)

theorem calculateNoteChanges_title_only_witness:
  "calculateNoteChanges exampleNote (set_prop ''title'' (JStr ''Shopping'') exampleNote) =
     [\<lparr>field = ''title'', change_from = Some (JStr ''Groceries''), change_to = Some (JStr ''Shopping'')\<rparr>]
   \<and> calculateNoteChanges exampleNote exampleNote = []"
proof -
  let ?u = "set_prop ''title'' (JStr ''Shopping'') exampleNote"
  have a: "calculateNoteChanges exampleNote ?u =
           (if strict_eq (map_of exampleNote ''title'') (map_of ?u ''title'') then []
            else [\<lparr>field = ''title'', change_from = map_of exampleNote ''title'',
                   change_to = map_of ?u ''title''\<rparr>])"
    by (rule calculateNoteChanges_title_only) (simp_all add: exampleNote_def set_prop_def)
  have b: "calculateNoteChanges exampleNote exampleNote =
           (if strict_eq (map_of exampleNote ''title'') (map_of exampleNote ''title'') then []
            else [\<lparr>field = ''title'', change_from = map_of exampleNote ''title'',
                   change_to = map_of exampleNote ''title''\<rparr>])"
    by (rule calculateNoteChanges_title_only) (simp_all add: exampleNote_def)
  from a b show ?thesis
    by (simp add: exampleNote_def set_prop_def)
qed

section \<open>Properties of the note validation\<close>

lemma dropWhile_all:
  "(\<forall>x \<in> set (dropWhile P s). P x) \<longleftrightarrow> (\<forall>x \<in> set s. P x)"
proof
  assume a: "\<forall>x \<in> set (dropWhile P s). P x"
  have "dropWhile P s = []"
  proof (cases "dropWhile P s")
    case Nil
    then show ?thesis .
  next
    case (Cons c cs)
    then have "\<not> P c" by (metis hd_dropWhile list.distinct(1) list.sel(1))
    moreover from Cons a have "P c" by simp
    ultimately show ?thesis by simp
  qed
  then show "\<forall>x \<in> set s. P x" by (simp add: dropWhile_eq_Nil_conv)
next
  assume "\<forall>x \<in> set s. P x"
  then show "\<forall>x \<in> set (dropWhile P s). P x"
    by (meson set_dropWhileD)
qed

lemma js_trim_empty_iff: "length (js_trim s) = 0 \<longleftrightarrow> list_all isWhiteSpace s"
  by (simp add: js_trim_def dropWhile_eq_Nil_conv dropWhile_all list_all_iff)

lemma isBlank_stringOrFalsy:
  "stringOrFalsy v \<Longrightarrow> isBlank v = Inr (blankText v)"
  by (cases v rule: truthy.cases)
     (auto simp: stringOrFalsy_def isBlank_def blankText_def js_trim_def)

lemma getTodayNoteCount_run:
  "getTodayNoteCount e st = (Inr (todayNoteCount e st), st\<lparr>clockReads := Suc (clockReads st)\<rparr>)"
  by (simp add: getTodayNoteCount_def todayNoteCount_def bindS_def readClock_def)

lemma validateBusinessRules_run:
  assumes "isBlank (map_of nd ''content'') = Inr cb"
  shows "validateBusinessRules e nd v st =
     (Inr (applyIf (\<not> allowEmptyContent (note_creation st) \<and> cb)
             (addViolation ''Empty content not allowed by business rules'')
             (applyIf (maxDailyNotes (note_creation st) \<noteq> 0
                        \<and> todayNoteCount e st \<ge> maxDailyNotes (note_creation st))
                (addViolation (dailyLimitMessage (maxDailyNotes (note_creation st)))) v)),
      (if maxDailyNotes (note_creation st) \<noteq> 0
       then st\<lparr>clockReads := Suc (clockReads st)\<rparr> else st))"
  using assms
  by (simp add: validateBusinessRules_def Let_def bindS_def ret_def getTodayNoteCount_run
        applyIf_def)

lemma applyIf_addError:
  "errors (applyIf c (addError m) v) = errors v @ (if c then [m] else [])"
  "warnings (applyIf c (addError m) v) = warnings v"
  "businessRuleViolations (applyIf c (addError m) v) = businessRuleViolations v"
  "isValid (applyIf c (addError m) v) = (\<not> c \<and> isValid v)"
  by (simp_all add: addError_def applyIf_def)

lemma applyIf_addWarning:
  "errors (applyIf c (addWarning m) v) = errors v"
  "warnings (applyIf c (addWarning m) v) = warnings v @ (if c then [m] else [])"
  "businessRuleViolations (applyIf c (addWarning m) v) = businessRuleViolations v"
  "isValid (applyIf c (addWarning m) v) = isValid v"
  by (simp_all add: addWarning_def applyIf_def)

lemma fields_addWarnings:
  "errors (addWarnings ms v) = errors v"
  "warnings (addWarnings ms v) = warnings v @ ms"
  "businessRuleViolations (addWarnings ms v) = businessRuleViolations v"
  "isValid (addWarnings ms v) = isValid v"
  by (simp_all add: addWarnings_def)

lemma applyIf_addViolation:
  "errors (applyIf c (addViolation m) v) = errors v"
  "warnings (applyIf c (addViolation m) v) = warnings v"
  "businessRuleViolations (applyIf c (addViolation m) v) =
     businessRuleViolations v @ (if c then [m] else [])"
  "isValid (applyIf c (addViolation m) v) = (\<not> c \<and> isValid v)"
  by (simp_all add: addViolation_def applyIf_def)

lemma if_singleton_Nil: "((if c then [m] else []) = []) = (\<not> c)"
  by simp

lemmas validation_steps = applyIf_addError applyIf_addWarning applyIf_addViolation
  fields_addWarnings

lemma lengthExceeds_string:
  "lengthExceeds e (Some (JStr t)) n = (length t > n)"
  by (auto simp: lengthExceeds_def)

lemma validation_eqI:
  "isValid a = isValid b \<Longrightarrow> errors a = errors b \<Longrightarrow> warnings a = warnings b \<Longrightarrow>
   businessRuleViolations a = businessRuleViolations b \<Longrightarrow> (a :: validation) = b"
  by simp

lemma validateNoteData_run:
  assumes t: "stringOrFalsy (map_of nd ''title'')" and c: "stringOrFalsy (map_of nd ''content'')"
  shows "validateNoteData e nd st =
     (Inr \<lparr>isValid = (noteErrors e st nd = [] \<and> noteViolations e st nd = []),
           errors = noteErrors e st nd,
           warnings = validationWarnings e st nd,
           businessRuleViolations = noteViolations e st nd\<rparr>,
      (if maxDailyNotes (note_creation st) \<noteq> 0
       then st\<lparr>clockReads := Suc (clockReads st)\<rparr> else st))"
proof -
  note bt = isBlank_stringOrFalsy [OF t]
  note bc = isBlank_stringOrFalsy [OF c]
  have tb: "(if title_required (note_validation st) then isBlank (map_of nd ''title'') else Inr False)
            = Inr (title_required (note_validation st) \<and> blankText (map_of nd ''title''))"
    by (simp add: bt)
  have cb: "(if content_required (note_validation st) then isBlank (map_of nd ''content'') else Inr False)
            = Inr (content_required (note_validation st) \<and> blankText (map_of nd ''content''))"
    by (simp add: bc)
  show ?thesis
  proof (cases "\<exists>ts. map_of nd ''tags'' = Some (JArr ts)")
    case True
    then obtain ts where ts: "map_of nd ''tags'' = Some (JArr ts)" by blast
    show ?thesis
      unfolding validateNoteData_def Let_def tb cb sum.case validateBusinessRules_run [OF bc]
      apply (simp only: prod.inject sum.inject simp_thms)
      apply (rule validation_eqI)
         apply (simp_all add: ts validation_steps noteErrors_def noteViolations_def
                  validationWarnings_def Let_def if_singleton_Nil split del: if_split cong: if_cong)
      apply blast
      done
  next
    case False
    then have nt: "\<And>A B. (case map_of nd ''tags'' of Some (JArr ts) \<Rightarrow> A ts | _ \<Rightarrow> (B :: validation)) = B"
      and nw: "validationWarnings e st nd = []"
      by (auto simp: validationWarnings_def split: option.split json.split)
    show ?thesis
      unfolding validateNoteData_def Let_def tb cb sum.case validateBusinessRules_run [OF bc] nt
      apply (simp only: prod.inject sum.inject simp_thms)
      apply (rule validation_eqI)
         apply (simp_all add: nw validation_steps noteErrors_def noteViolations_def
                  Let_def if_singleton_Nil split del: if_split cong: if_cong)
      apply blast
      done
  qed
qed

lemma in_set_if_singleton: "x \<in> set (if c then [m] else []) \<longleftrightarrow> c \<and> x = m"
  by auto

lemma decimal_200: "decimal 200 = ''200''"
  by (simp add: decimal.simps digit_def)

lemma decimal_50000: "decimal 50000 = ''50000''"
  by (simp add: decimal.simps digit_def)

lemma decimal_10: "decimal 10 = ''10''"
  by (simp add: decimal.simps digit_def)

lemma decimal_30: "decimal 30 = ''30''"
  by (simp add: decimal.simps digit_def)

lemma titleTooLong_in_noteErrors:
  assumes "note_validation st = initial_note_validation"
  shows "titleTooLong \<in> set (noteErrors e st nd) \<longleftrightarrow> lengthExceeds e (map_of nd ''title'') 200"
  using assms
  by (simp add: noteErrors_def Let_def initial_note_validation_def titleTooLong_def
        in_set_if_singleton decimal_200 decimal_50000 split del: if_split)

lemma contentTooLong_in_noteErrors:
  assumes "note_validation st = initial_note_validation"
  shows "contentTooLong \<in> set (noteErrors e st nd) \<longleftrightarrow> lengthExceeds e (map_of nd ''content'') 50000"
  using assms
  by (simp add: noteErrors_def Let_def initial_note_validation_def contentTooLong_def
        in_set_if_singleton decimal_200 decimal_50000 split del: if_split)

lemma noteErrors_cong:
  assumes "\<forall>k. k \<noteq> ''tags'' \<longrightarrow> map_of nd' k = map_of nd k"
  shows "noteErrors e st nd' = noteErrors e st nd"
  using assms by (simp add: noteErrors_def)

lemma noteViolations_cong:
  assumes "\<forall>k. k \<noteq> ''tags'' \<longrightarrow> map_of nd' k = map_of nd k"
  shows "noteViolations e st nd' = noteViolations e st nd"
  using assms by (simp add: noteViolations_def)

lemma long_tag_warning:
  assumes "JStr tag \<in> set ts" and "length tag > n"
  shows "''Tag '' @ quote @ tag @ quote @ '' too long (max '' @ decimal n @ '' chars)''
           \<in> set (tagWarnings e n ts)"
proof -
  from assms(2) have "tag \<noteq> []" by auto
  with assms have "JStr tag \<in> set (filter (\<lambda>tag. truthy (Some tag) \<and> js_gt e (js_length tag) n) ts)"
    by simp
  then have "(\<lambda>tag. ''Tag '' @ quote @ js_toString tag @ quote @ '' too long (max '' @ decimal n @ '' chars)'') (JStr tag)
      \<in> set (tagWarnings e n ts)"
    unfolding tagWarnings_def set_map by (rule imageI)
  then show ?thesis by simp
qed

text \<open>
  C2. With the rule table of \<open>initializeBusinessRules\<close>, for note data whose title and
  content are strings or falsy, \<open>validateNoteData\<close> returns a result in which: a title of at
  most 200 characters (so one of exactly 200) gets no length error, a longer one (so one
  of 201) gets the length error and \<^verbatim>\<open>isValid\<close> = false; the same holds for the content
  with 50000 and 50001; more than 10 tags, and a tag longer than 30 characters, add
  warnings; and \<^verbatim>\<open>isValid\<close>, the errors and the business rule violations do not depend
  on the tags at all.
\<close>

theorem validateNoteData_length_limits:
  assumes rules: "note_validation st = initial_note_validation"
    and t: "stringOrFalsy (map_of nd ''title'')"
    and c: "stringOrFalsy (map_of nd ''content'')"
  shows "\<exists>v. fst (validateNoteData e nd st) = Inr v
     \<and> (\<forall>title. map_of nd ''title'' = Some (JStr title) \<longrightarrow>
           (length title \<le> 200 \<longrightarrow> titleTooLong \<notin> set (errors v))
         \<and> (length title > 200 \<longrightarrow> titleTooLong \<in> set (errors v) \<and> \<not> isValid v))
     \<and> (\<forall>content. map_of nd ''content'' = Some (JStr content) \<longrightarrow>
           (length content \<le> 50000 \<longrightarrow> contentTooLong \<notin> set (errors v))
         \<and> (length content > 50000 \<longrightarrow> contentTooLong \<in> set (errors v) \<and> \<not> isValid v))
     \<and> (\<forall>ts. map_of nd ''tags'' = Some (JArr ts) \<longrightarrow>
           (length ts > 10 \<longrightarrow> ''Too many tags (max 10)'' \<in> set (warnings v))
         \<and> (\<forall>tag. JStr tag \<in> set ts \<and> length tag > 30 \<longrightarrow> tagTooLong tag \<in> set (warnings v)))
     \<and> (\<forall>nd'. (\<forall>k. k \<noteq> ''tags'' \<longrightarrow> map_of nd' k = map_of nd k) \<longrightarrow>
           (\<exists>v'. fst (validateNoteData e nd' st) = Inr v'
                \<and> isValid v' = isValid v \<and> errors v' = errors v
                \<and> businessRuleViolations v' = businessRuleViolations v))"
proof -
  let ?v = "\<lparr>isValid = (noteErrors e st nd = [] \<and> noteViolations e st nd = []),
             errors = noteErrors e st nd,
             warnings = validationWarnings e st nd,
             businessRuleViolations = noteViolations e st nd\<rparr>"
  have run: "fst (validateNoteData e nd st) = Inr ?v"
    by (simp add: validateNoteData_run [OF t c])
  have title: "\<forall>title. map_of nd ''title'' = Some (JStr title) \<longrightarrow>
           (length title \<le> 200 \<longrightarrow> titleTooLong \<notin> set (errors ?v))
         \<and> (length title > 200 \<longrightarrow> titleTooLong \<in> set (errors ?v) \<and> \<not> isValid ?v)"
  proof (intro allI impI conjI)
    fix title assume "map_of nd ''title'' = Some (JStr title)" and "length title \<le> 200"
    then show "titleTooLong \<notin> set (errors ?v)"
      by (simp add: titleTooLong_in_noteErrors [OF rules] lengthExceeds_string)
  next
    fix title assume h: "map_of nd ''title'' = Some (JStr title)" "length title > 200"
    then show in_errors: "titleTooLong \<in> set (errors ?v)"
      by (simp add: titleTooLong_in_noteErrors [OF rules] lengthExceeds_string)
    then have "noteErrors e st nd \<noteq> []" by auto
    then show "\<not> isValid ?v" by simp
  qed
  have content: "\<forall>content. map_of nd ''content'' = Some (JStr content) \<longrightarrow>
           (length content \<le> 50000 \<longrightarrow> contentTooLong \<notin> set (errors ?v))
         \<and> (length content > 50000 \<longrightarrow> contentTooLong \<in> set (errors ?v) \<and> \<not> isValid ?v)"
  proof (intro allI impI conjI)
    fix content assume "map_of nd ''content'' = Some (JStr content)" and "length content \<le> 50000"
    then show "contentTooLong \<notin> set (errors ?v)"
      by (simp add: contentTooLong_in_noteErrors [OF rules] lengthExceeds_string)
  next
    fix content assume h: "map_of nd ''content'' = Some (JStr content)" "length content > 50000"
    then show in_errors: "contentTooLong \<in> set (errors ?v)"
      by (simp add: contentTooLong_in_noteErrors [OF rules] lengthExceeds_string)
    then have "noteErrors e st nd \<noteq> []" by auto
    then show "\<not> isValid ?v" by simp
  qed
  have tags: "\<forall>ts. map_of nd ''tags'' = Some (JArr ts) \<longrightarrow>
           (length ts > 10 \<longrightarrow> ''Too many tags (max 10)'' \<in> set (warnings ?v))
         \<and> (\<forall>tag. JStr tag \<in> set ts \<and> length tag > 30 \<longrightarrow> tagTooLong tag \<in> set (warnings ?v))"
  proof (intro allI impI conjI)
    fix ts assume "map_of nd ''tags'' = Some (JArr ts)" and "length ts > 10"
    then show "''Too many tags (max 10)'' \<in> set (warnings ?v)"
      by (simp add: validationWarnings_def rules initial_note_validation_def decimal_10)
  next
    fix ts tag
    assume ts: "map_of nd ''tags'' = Some (JArr ts)" and tag: "JStr tag \<in> set ts \<and> length tag > 30"
    from tag have "''Tag '' @ quote @ tag @ quote @ '' too long (max '' @ decimal 30 @ '' chars)''
           \<in> set (tagWarnings e 30 ts)"
      by (intro long_tag_warning) simp_all
    then have "tagTooLong tag \<in> set (tagWarnings e 30 ts)"
      by (simp add: tagTooLong_def decimal_30)
    with ts show "tagTooLong tag \<in> set (warnings ?v)"
      by (simp add: validationWarnings_def rules initial_note_validation_def)
  qed
  have other: "\<forall>nd'. (\<forall>k. k \<noteq> ''tags'' \<longrightarrow> map_of nd' k = map_of nd k) \<longrightarrow>
           (\<exists>v'. fst (validateNoteData e nd' st) = Inr v'
                \<and> isValid v' = isValid ?v \<and> errors v' = errors ?v
                \<and> businessRuleViolations v' = businessRuleViolations ?v)"
  proof (intro allI impI)
    fix nd' assume same: "\<forall>k. k \<noteq> ''tags'' \<longrightarrow> map_of nd' k = map_of nd k"
    then have t': "stringOrFalsy (map_of nd' ''title'')" and c': "stringOrFalsy (map_of nd' ''content'')"
      using t c by simp_all
    have "fst (validateNoteData e nd' st) =
        Inr \<lparr>isValid = (noteErrors e st nd' = [] \<and> noteViolations e st nd' = []),
             errors = noteErrors e st nd',
             warnings = validationWarnings e st nd',
             businessRuleViolations = noteViolations e st nd'\<rparr>"
      by (simp add: validateNoteData_run [OF t' c'])
    then show "\<exists>v'. fst (validateNoteData e nd' st) = Inr v'
                \<and> isValid v' = isValid ?v \<and> errors v' = errors ?v
                \<and> businessRuleViolations v' = businessRuleViolations ?v"
      by (simp add: noteErrors_cong [OF same] noteViolations_cong [OF same])
  qed
  from run title content tags other show ?thesis by blast
qed

theorem validateNoteData_length_limits_witness:
  "(\<exists>v. fst (validateNoteData exampleEnv longNote emptyState) = Inr v
       \<and> titleTooLong \<in> set (errors v) \<and> contentTooLong \<in> set (errors v) \<and> \<not> isValid v
       \<and> ''Too many tags (max 10)'' \<in> set (warnings v)
       \<and> tagTooLong (replicate 31 CHR ''t'') \<in> set (warnings v))
   \<and> (\<exists>v. fst (validateNoteData exampleEnv limitNote emptyState) = Inr v
       \<and> titleTooLong \<notin> set (errors v) \<and> contentTooLong \<notin> set (errors v))"
proof
  have rules: "note_validation emptyState = initial_note_validation"
    by (simp add: emptyState_def)
  have t: "stringOrFalsy (map_of longNote ''title'')" and c: "stringOrFalsy (map_of longNote ''content'')"
    by (simp_all add: longNote_def stringOrFalsy_def)
  have ti: "map_of longNote ''title'' = Some (JStr (replicate 201 CHR ''a''))"
    and co: "map_of longNote ''content'' = Some (JStr (replicate 50001 CHR ''b''))"
    and ta: "map_of longNote ''tags'' = Some (JArr (JStr (replicate 31 CHR ''t'') # replicate 10 (JStr ''x'')))"
    by (simp_all add: longNote_def)
  from validateNoteData_length_limits [OF rules t c, of exampleEnv] ti co ta
  show "\<exists>v. fst (validateNoteData exampleEnv longNote emptyState) = Inr v
       \<and> titleTooLong \<in> set (errors v) \<and> contentTooLong \<in> set (errors v) \<and> \<not> isValid v
       \<and> ''Too many tags (max 10)'' \<in> set (warnings v)
       \<and> tagTooLong (replicate 31 CHR ''t'') \<in> set (warnings v)"
    by fastforce
next
  have rules: "note_validation emptyState = initial_note_validation"
    by (simp add: emptyState_def)
  have t: "stringOrFalsy (map_of limitNote ''title'')" and c: "stringOrFalsy (map_of limitNote ''content'')"
    by (simp_all add: limitNote_def stringOrFalsy_def)
  have ti: "map_of limitNote ''title'' = Some (JStr (replicate 200 CHR ''a''))"
    and co: "map_of limitNote ''content'' = Some (JStr (replicate 50000 CHR ''b''))"
    by (simp_all add: limitNote_def)
  from validateNoteData_length_limits [OF rules t c, of exampleEnv] ti co
  show "\<exists>v. fst (validateNoteData exampleEnv limitNote emptyState) = Inr v
       \<and> titleTooLong \<notin> set (errors v) \<and> contentTooLong \<notin> set (errors v)"
    by fastforce
qed

lemma dailyLimitMessage_other: "dailyLimitMessage n \<noteq> ''Empty content not allowed by business rules''"
  by (simp add: dailyLimitMessage_def)

lemma dailyLimit_in_noteViolations:
  "dailyLimitMessage (maxDailyNotes (note_creation st)) \<in> set (noteViolations e st nd) \<longleftrightarrow>
     maxDailyNotes (note_creation st) \<noteq> 0
     \<and> todayNoteCount e st \<ge> maxDailyNotes (note_creation st)"
  by (simp add: noteViolations_def in_set_if_singleton dailyLimitMessage_other
        split del: if_split)

lemma todayNoteCount_createdAt:
  "todayNoteCount e st =
     length (filter (\<lambda>n. (case dateParse e (map_of n ''createdAt'') of
                              None \<Rightarrow> ''Invalid Date'' | Some t \<Rightarrow> toDateString e t)
                           = toDateString e (int (dateNow e (clockReads st))))
               (ls_notes st))"
  by (simp add: todayNoteCount_def noteDateString_def)

text \<open>
  C3. With \<^verbatim>\<open>maxDailyNotes\<close> = N > 0 (N = 100 in the code) and note data whose title and
  content are strings or falsy, \<open>validateNoteData\<close> returns a result that has the
  daily-limit entry among its business rule violations exactly when at least N stored
  notes have a \<^verbatim>\<open>createdAt\<close> that, read as a date, prints the calendar day that the clock
  prints (a \<^verbatim>\<open>createdAt\<close> that is no date prints as \<^verbatim>\<open>Invalid Date\<close>); with the entry,
  \<^verbatim>\<open>isValid\<close> is false. No other property of a stored note enters the count.
\<close>

theorem validateNoteData_daily_limit:
  assumes limit: "maxDailyNotes (note_creation st) = N" and pos: "N > 0"
    and t: "stringOrFalsy (map_of nd ''title'')"
    and c: "stringOrFalsy (map_of nd ''content'')"
  shows "\<exists>v. fst (validateNoteData e nd st) = Inr v
     \<and> (dailyLimitMessage N \<in> set (businessRuleViolations v) \<longleftrightarrow>
          N \<le> length (filter (\<lambda>n. (case dateParse e (map_of n ''createdAt'') of
                                     None \<Rightarrow> ''Invalid Date'' | Some t \<Rightarrow> toDateString e t)
                                  = toDateString e (int (dateNow e (clockReads st))))
                      (ls_notes st)))
     \<and> (dailyLimitMessage N \<in> set (businessRuleViolations v) \<longrightarrow> \<not> isValid v)"
proof -
  let ?v = "\<lparr>isValid = (noteErrors e st nd = [] \<and> noteViolations e st nd = []),
             errors = noteErrors e st nd,
             warnings = validationWarnings e st nd,
             businessRuleViolations = noteViolations e st nd\<rparr>"
  let ?count = "length (filter (\<lambda>n. (case dateParse e (map_of n ''createdAt'') of
                                     None \<Rightarrow> ''Invalid Date'' | Some t \<Rightarrow> toDateString e t)
                                  = toDateString e (int (dateNow e (clockReads st))))
                      (ls_notes st))"
  have run: "fst (validateNoteData e nd st) = Inr ?v"
    by (simp add: validateNoteData_run [OF t c])
  have "dailyLimitMessage N \<in> set (noteViolations e st nd) \<longleftrightarrow> todayNoteCount e st \<ge> N"
    using dailyLimit_in_noteViolations [of st e nd] limit pos by simp
  then have member: "dailyLimitMessage N \<in> set (businessRuleViolations ?v) \<longleftrightarrow> N \<le> ?count"
    by (simp only: todayNoteCount_createdAt validation.simps)
  have invalid: "dailyLimitMessage N \<in> set (businessRuleViolations ?v) \<longrightarrow> \<not> isValid ?v"
  proof
    assume "dailyLimitMessage N \<in> set (businessRuleViolations ?v)"
    then have "noteViolations e st nd \<noteq> []" by auto
    then show "\<not> isValid ?v" by simp
  qed
  from run member invalid show ?thesis by blast
qed

lemma dayOfNotes_createdAt:
  "n \<in> set dayOfNotes \<Longrightarrow> map_of n ''createdAt'' = Some (JStr ''2023-11-14T22:13:20.000Z'')"
  by (auto simp: dayOfNotes_def map_of_set_prop exampleNote_def)

lemma length_dayOfNotes: "length dayOfNotes = 100"
  by (simp add: dayOfNotes_def)

lemma dayOfNotes_same_day:
  "filter (\<lambda>n. (case dateParse exampleEnv (map_of n ''createdAt'') of
                  None \<Rightarrow> ''Invalid Date'' | Some t \<Rightarrow> toDateString exampleEnv t)
               = toDateString exampleEnv (int (dateNow exampleEnv k))) dayOfNotes = dayOfNotes"
  by (rule filter_True) (simp add: dayOfNotes_createdAt exampleEnv_def)

lemma dayOfNotes_next_day:
  "filter (\<lambda>n. (case dateParse nextDayEnv (map_of n ''createdAt'') of
                  None \<Rightarrow> ''Invalid Date'' | Some t \<Rightarrow> toDateString nextDayEnv t)
               = toDateString nextDayEnv (int (dateNow nextDayEnv k))) dayOfNotes = []"
  by (simp add: filter_empty_conv dayOfNotes_createdAt exampleEnv_def nextDayEnv_def)

text \<open>
  C3. A store of 100 notes created on 14 November 2023 (and modified a day later): on that
  day a further note is refused with the daily-limit entry, on the 15th it is not.
\<close>

theorem validateNoteData_daily_limit_witness:
  "(\<exists>v. fst (validateNoteData exampleEnv exampleNote (emptyState\<lparr>ls_notes := dayOfNotes\<rparr>)) = Inr v
       \<and> dailyLimitMessage 100 \<in> set (businessRuleViolations v) \<and> \<not> isValid v)
   \<and> (\<exists>v. fst (validateNoteData nextDayEnv exampleNote (emptyState\<lparr>ls_notes := dayOfNotes\<rparr>)) = Inr v
       \<and> dailyLimitMessage 100 \<notin> set (businessRuleViolations v))"
proof -
  let ?st = "emptyState\<lparr>ls_notes := dayOfNotes\<rparr>"
  have limit: "maxDailyNotes (note_creation ?st) = 100"
    by (simp add: emptyState_def initial_note_creation_def)
  have pos: "(100::nat) > 0" by simp
  have t: "stringOrFalsy (map_of exampleNote ''title'')" and c: "stringOrFalsy (map_of exampleNote ''content'')"
    by (simp_all add: exampleNote_def stringOrFalsy_def)
  have stored: "ls_notes ?st = dayOfNotes"
    by simp
  have same: "\<exists>v. fst (validateNoteData exampleEnv exampleNote ?st) = Inr v
       \<and> dailyLimitMessage 100 \<in> set (businessRuleViolations v) \<and> \<not> isValid v"
    using validateNoteData_daily_limit [OF limit pos t c, of exampleEnv]
    unfolding stored dayOfNotes_same_day
    by (simp add: length_dayOfNotes) blast
  have next_day: "\<exists>v. fst (validateNoteData nextDayEnv exampleNote ?st) = Inr v
       \<and> dailyLimitMessage 100 \<notin> set (businessRuleViolations v)"
    using validateNoteData_daily_limit [OF limit pos t c, of nextDayEnv]
    unfolding stored dayOfNotes_next_day
    by simp blast
  from same next_day show ?thesis ..
qed

section \<open>Properties of the deletion workflow\<close>

lemma deletion_not_found:
  assumes "find (hasId noteId) (ls_notes st) = None"
  shows "fst (startNoteDeletionWorkflow e noteId st) = Inl (Error ''Note not found'')
       \<and> dialogs (snd (startNoteDeletionWorkflow e noteId st)) = dialogs st"
  using assms
  by (simp add: startNoteDeletionWorkflow_def action_defs loadNoteForEditing_def Let_def)

lemma deletion_protected:
  assumes "find (hasId noteId) (ls_notes st) = Some n" and "truthy (map_of n ''isProtected'')"
  shows "fst (startNoteDeletionWorkflow e noteId st) =
           Inl (Error ''Cannot delete note: Note is protected from deletion'')
       \<and> dialogs (snd (startNoteDeletionWorkflow e noteId st)) = dialogs st"
  using assms
  by (simp add: startNoteDeletionWorkflow_def action_defs loadNoteForEditing_def Let_def
        validateDeletionPermissions_def)

lemma deletion_declined:
  assumes "find (hasId noteId) (ls_notes st) = Some n" and "\<not> truthy (map_of n ''isProtected'')"
    and "\<not> confirmAnswer e (length (dialogs st))"
  shows "fst (startNoteDeletionWorkflow e noteId st) = Inr cancelledDeletion
       \<and> ls_notes (snd (startNoteDeletionWorkflow e noteId st)) = ls_notes st
       \<and> ls_note_backups (snd (startNoteDeletionWorkflow e noteId st)) = ls_note_backups st
       \<and> workflowHistory (snd (startNoteDeletionWorkflow e noteId st)) \<noteq> []
       \<and> wf_type (last (workflowHistory (snd (startNoteDeletionWorkflow e noteId st)))) = ''note_deletion''
       \<and> status (last (workflowHistory (snd (startNoteDeletionWorkflow e noteId st)))) = Some ''cancelled''
       \<and> wf_error (last (workflowHistory (snd (startNoteDeletionWorkflow e noteId st)))) = None"
  using assms
  by (simp add: startNoteDeletionWorkflow_def action_defs loadNoteForEditing_def Let_def
        validateDeletionPermissions_def confirmNoteDeletion_def cancelledDeletion_def)

text \<open>
  C4. In every run of \<open>startNoteDeletionWorkflow\<close> in which the confirmation dialog is
  shown and the user declines it, the function returns
  \<^verbatim>\<open>{success: false, reason: "User cancelled deletion"}\<close> and does not throw, the stored
  notes and the backup store are unchanged, and the workflow record appended to the
  history has type \<^verbatim>\<open>note_deletion\<close>, status \<^verbatim>\<open>cancelled\<close> and no error.
\<close>

theorem deletion_cancelled_by_user:
  assumes asked: "dialogs (snd (startNoteDeletionWorkflow e noteId st)) \<noteq> dialogs st"
    and declined: "\<not> confirmAnswer e (length (dialogs st))"
  shows "fst (startNoteDeletionWorkflow e noteId st) = Inr cancelledDeletion
       \<and> ls_notes (snd (startNoteDeletionWorkflow e noteId st)) = ls_notes st
       \<and> ls_note_backups (snd (startNoteDeletionWorkflow e noteId st)) = ls_note_backups st
       \<and> workflowHistory (snd (startNoteDeletionWorkflow e noteId st)) \<noteq> []
       \<and> wf_type (last (workflowHistory (snd (startNoteDeletionWorkflow e noteId st)))) = ''note_deletion''
       \<and> status (last (workflowHistory (snd (startNoteDeletionWorkflow e noteId st)))) = Some ''cancelled''
       \<and> wf_error (last (workflowHistory (snd (startNoteDeletionWorkflow e noteId st)))) = None"
proof (cases "find (hasId noteId) (ls_notes st)")
  case None
  then have "dialogs (snd (startNoteDeletionWorkflow e noteId st)) = dialogs st"
    by (simp add: deletion_not_found)
  with asked show ?thesis by simp
next
  case (Some n)
  show ?thesis
  proof (cases "truthy (map_of n ''isProtected'')")
    case True
    with Some have "dialogs (snd (startNoteDeletionWorkflow e noteId st)) = dialogs st"
      by (simp add: deletion_protected)
    with asked show ?thesis by simp
  next
    case False
    show ?thesis by (rule deletion_declined [OF Some False declined])
  qed
qed

lemma find_findIndex:
  "find p xs = Some x \<Longrightarrow> \<exists>i. findIndex p xs = Some i \<and> i < length xs \<and> xs ! i = x"
proof (induction xs)
  case Nil
  then show ?case by simp
next
  case (Cons y ys)
  then show ?case by (cases "p y") auto
qed

lemma find_member: "find p xs = Some x \<Longrightarrow> x \<in> set xs \<and> p x"
  by (induction xs) (auto split: if_splits)

lemma splice1_unique:
  "findIndex p xs = Some i \<Longrightarrow> length (filter p xs) \<le> 1 \<Longrightarrow> filter p (splice1 i xs) = []"
proof (induction xs arbitrary: i)
  case Nil
  then show ?case by simp
next
  case (Cons y ys)
  show ?case
  proof (cases "p y")
    case True
    with Cons.prems have "i = 0" and "filter p ys = []" by simp_all
    then show ?thesis by (simp add: splice1_def)
  next
    case False
    with Cons.prems obtain j where j: "findIndex p ys = Some j" "i = Suc j"
      by (auto split: option.splits)
    from Cons.prems False have "length (filter p ys) \<le> 1" by simp
    with j have "filter p (splice1 j ys) = []" by (simp add: Cons.IH)
    with False j show ?thesis by (simp add: splice1_def)
  qed
qed

lemma hasId_id: "hasId noteId n \<Longrightarrow> map_of n ''id'' = Some (JStr noteId)"
  by (cases "map_of n ''id''" rule: truthy.cases) (simp_all add: hasId_def)

lemma deletion_confirmed:
  assumes found: "find (hasId noteId) (ls_notes st) = Some n"
    and idx: "findIndex (hasId noteId) (ls_notes st) = Some i"
    and free: "\<not> truthy (map_of n ''isProtected'')"
    and yes: "confirmAnswer e (length (dialogs st))"
  shows "fst (startNoteDeletionWorkflow e noteId st) =
           Inr (JObj [(''success'', JBool True), (''deletedNote'', JObj n),
                      (''backup'', JStr (deletionBackupId e st noteId)), (''workflow'', JNull)])
       \<and> ls_notes (snd (startNoteDeletionWorkflow e noteId st)) = splice1 i (ls_notes st)
       \<and> ls_note_backups (snd (startNoteDeletionWorkflow e noteId st)) =
           set_prop (deletionBackupId e st noteId)
             (JObj [(''note'', JObj n),
                    (''timestamp'', JStr (toISOString e (dateNow e (clockReads st + 2)))),
                    (''type'', JStr ''deletion_backup'')])
             (ls_note_backups st)"
proof -
  from found have "hasId noteId n" by (simp add: find_member)
  then have nid: "map_of n ''id'' = Some (JStr noteId)" by (rule hasId_id)
  show ?thesis
    using found idx free yes
    by (simp add: startNoteDeletionWorkflow_def action_defs loadNoteForEditing_def Let_def
          validateDeletionPermissions_def confirmNoteDeletion_def createDeletionBackup_def
          performNoteDeletion_def handlePostDeletionActions_def deletionBackupId_def nid
          interpolate_def)
qed

text \<open>
  C5. In every run of \<open>startNoteDeletionWorkflow\<close> on note id \<open>n\<close> that returns an object
  with \<^verbatim>\<open>success: true\<close>, from a collection in which at most one note has id \<open>n\<close> (the data
  model's unique ids), the backup store afterwards has a record of type
  \<^verbatim>\<open>deletion_backup\<close> whose \<^verbatim>\<open>note\<close> is the stored note that had id \<open>n\<close>, and the stored
  collection has no note with id \<open>n\<close> left.
\<close>

theorem deletion_backup_before_destroy:
  assumes returned: "fst (startNoteDeletionWorkflow e noteId st) = Inr (JObj r)"
    and success: "map_of r ''success'' = Some (JBool True)"
    and unique: "length (filter (hasId noteId) (ls_notes st)) \<le> 1"
  shows "\<exists>n backupId stamp.
           n \<in> set (ls_notes st) \<and> map_of n ''id'' = Some (JStr noteId)
         \<and> map_of (ls_note_backups (snd (startNoteDeletionWorkflow e noteId st))) backupId =
             Some (JObj [(''note'', JObj n), (''timestamp'', JStr stamp),
                         (''type'', JStr ''deletion_backup'')])
         \<and> filter (hasId noteId) (ls_notes (snd (startNoteDeletionWorkflow e noteId st))) = []"
proof (cases "find (hasId noteId) (ls_notes st)")
  case None
  with returned show ?thesis by (simp add: deletion_not_found)
next
  case (Some n)
  show ?thesis
  proof (cases "truthy (map_of n ''isProtected'')")
    case True
    with Some returned show ?thesis by (simp add: deletion_protected)
  next
    case False
    show ?thesis
    proof (cases "confirmAnswer e (length (dialogs st))")
      case declined: False
      from deletion_declined [OF Some False declined] returned success
      show ?thesis by (auto simp: cancelledDeletion_def)
    next
      case True
      from Some obtain i where idx: "findIndex (hasId noteId) (ls_notes st) = Some i"
        using find_findIndex by fastforce
      note run = deletion_confirmed [OF Some idx False True]
      from Some have mem: "n \<in> set (ls_notes st)" and nid: "map_of n ''id'' = Some (JStr noteId)"
        by (simp_all add: find_member hasId_id)
      have backup: "map_of (ls_note_backups (snd (startNoteDeletionWorkflow e noteId st)))
            (deletionBackupId e st noteId) =
             Some (JObj [(''note'', JObj n),
                         (''timestamp'', JStr (toISOString e (dateNow e (clockReads st + 2)))),
                         (''type'', JStr ''deletion_backup'')])"
        using run by (simp add: map_of_set_prop)
      have gone: "filter (hasId noteId) (ls_notes (snd (startNoteDeletionWorkflow e noteId st))) = []"
        using run splice1_unique [OF idx unique] by simp
      from mem nid backup gone show ?thesis by blast
    qed
  qed
qed

lemma exampleNote_found:
  "find (hasId exampleNoteId) (ls_notes oneNoteState) = Some exampleNote"
  by (simp add: oneNoteState_def emptyState_def hasId_def exampleNote_def exampleNoteId_def)

lemma exampleNote_index:
  "findIndex (hasId exampleNoteId) (ls_notes oneNoteState) = Some 0"
  by (simp add: oneNoteState_def emptyState_def hasId_def exampleNote_def exampleNoteId_def)

lemma exampleNote_free: "\<not> truthy (map_of exampleNote ''isProtected'')"
  by (simp add: exampleNote_def)

theorem deletion_cancelled_by_user_witness:
  "fst (startNoteDeletionWorkflow exampleEnv exampleNoteId oneNoteState) = Inr cancelledDeletion
   \<and> ls_notes (snd (startNoteDeletionWorkflow exampleEnv exampleNoteId oneNoteState)) = [exampleNote]
   \<and> status (last (workflowHistory (snd (startNoteDeletionWorkflow exampleEnv exampleNoteId oneNoteState))))
       = Some ''cancelled''"
proof -
  have declined: "\<not> confirmAnswer exampleEnv (length (dialogs oneNoteState))"
    by (simp add: exampleEnv_def)
  have asked: "dialogs (snd (startNoteDeletionWorkflow exampleEnv exampleNoteId oneNoteState))
                 \<noteq> dialogs oneNoteState"
    using exampleNote_found exampleNote_free declined
    by (simp add: startNoteDeletionWorkflow_def action_defs loadNoteForEditing_def Let_def
          validateDeletionPermissions_def confirmNoteDeletion_def)
  from deletion_cancelled_by_user [OF asked declined]
  show ?thesis by (simp add: oneNoteState_def)
qed

theorem deletion_backup_before_destroy_witness:
  "(\<exists>backupId stamp.
      map_of (ls_note_backups (snd (startNoteDeletionWorkflow agreeingEnv exampleNoteId oneNoteState)))
        backupId =
          Some (JObj [(''note'', JObj exampleNote), (''timestamp'', JStr stamp),
                      (''type'', JStr ''deletion_backup'')]))
   \<and> filter (hasId exampleNoteId)
        (ls_notes (snd (startNoteDeletionWorkflow agreeingEnv exampleNoteId oneNoteState))) = []"
proof -
  have yes: "confirmAnswer agreeingEnv (length (dialogs oneNoteState))"
    by (simp add: agreeingEnv_def)
  note run = deletion_confirmed [OF exampleNote_found exampleNote_index exampleNote_free yes]
  let ?r = "[(''success'', JBool True), (''deletedNote'', JObj exampleNote),
             (''backup'', JStr (deletionBackupId agreeingEnv oneNoteState exampleNoteId)),
             (''workflow'', JNull)]"
  have returned: "fst (startNoteDeletionWorkflow agreeingEnv exampleNoteId oneNoteState) = Inr (JObj ?r)"
    using run by simp
  have success: "map_of ?r ''success'' = Some (JBool True)" by simp
  have unique: "length (filter (hasId exampleNoteId) (ls_notes oneNoteState)) \<le> 1"
    by (simp add: oneNoteState_def)
  from deletion_backup_before_destroy [OF returned success unique]
  obtain n backupId stamp where
    n: "n \<in> set (ls_notes oneNoteState)"
    and b: "map_of (ls_note_backups (snd (startNoteDeletionWorkflow agreeingEnv exampleNoteId oneNoteState)))
              backupId =
             Some (JObj [(''note'', JObj n), (''timestamp'', JStr stamp),
                         (''type'', JStr ''deletion_backup'')])"
    and g: "filter (hasId exampleNoteId)
              (ls_notes (snd (startNoteDeletionWorkflow agreeingEnv exampleNoteId oneNoteState))) = []"
    by blast
  from n have "n = exampleNote" by (simp add: oneNoteState_def)
  with b g show ?thesis by blast
qed

end
